(* ===== verification/Yield_Prelude.thy ===== *)
theory Yield_Prelude
  imports Complex_Main "HOL-Library.Sublist"
begin

text \<open>
  The prelude of the development: the types the model shares (addresses, chain names,
  JavaScript numbers), the JavaScript string operations the adaptor uses
  (\<^verbatim>\<open>toLowerCase\<close>, \<^verbatim>\<open>Array.prototype.join\<close>), and the generic lemmas on
  lists and on numbers that the component theories use through the collections
  \<open>js_num_simps\<close> and \<open>pool_simps\<close>.

  JavaScript numbers and the values of \<^verbatim>\<open>bignumber.js\<close> are modelled by one datatype
  \<open>jsnum\<close>: a finite value (an exact rational: the rounding of IEEE doubles is not
  modelled), \<open>NaN\<close>, and the two infinities. The arithmetic follows ECMAScript on
  these four kinds of value: \<open>NaN\<close> absorbs, \<open>\<infinity> - \<infinity>\<close> and \<open>0 * \<infinity>\<close> are
  \<open>NaN\<close>, and a finite non-zero value divided by zero is an infinity.
\<close>

named_theorems js_num_simps "evaluation rules of the JavaScript number operations"
named_theorems pool_simps "unfoldings of the adaptor's record builders"

type_synonym address = string
type_synonym chain_name = string

section \<open>JavaScript numbers\<close>

datatype jsnum = Fin rat | NaN | PInf | NInf

fun js_is_finite :: "jsnum \<Rightarrow> bool" where
  "js_is_finite (Fin _) = True"
| "js_is_finite _ = False"

text \<open>\<open>x > 0\<close>, false on \<open>NaN\<close>.\<close>

fun js_gt_zero :: "jsnum \<Rightarrow> bool" where
  "js_gt_zero (Fin q) = (0 < q)"
| "js_gt_zero PInf = True"
| "js_gt_zero _ = False"

definition js_inf_of_sign :: "rat \<Rightarrow> jsnum" where
  "js_inf_of_sign q = (if q = 0 then NaN else if 0 < q then PInf else NInf)"

fun js_neg :: "jsnum \<Rightarrow> jsnum" where
  "js_neg (Fin a) = Fin (- a)"
| "js_neg NaN = NaN"
| "js_neg PInf = NInf"
| "js_neg NInf = PInf"

fun js_add :: "jsnum \<Rightarrow> jsnum \<Rightarrow> jsnum" where
  "js_add (Fin a) (Fin b) = Fin (a + b)"
| "js_add NaN _ = NaN"
| "js_add _ NaN = NaN"
| "js_add PInf NInf = NaN"
| "js_add NInf PInf = NaN"
| "js_add PInf _ = PInf"
| "js_add NInf _ = NInf"
| "js_add _ PInf = PInf"
| "js_add _ NInf = NInf"

fun js_mul :: "jsnum \<Rightarrow> jsnum \<Rightarrow> jsnum" where
  "js_mul (Fin a) (Fin b) = Fin (a * b)"
| "js_mul NaN _ = NaN"
| "js_mul _ NaN = NaN"
| "js_mul PInf (Fin b) = js_inf_of_sign b"
| "js_mul NInf (Fin b) = js_inf_of_sign (- b)"
| "js_mul (Fin a) PInf = js_inf_of_sign a"
| "js_mul (Fin a) NInf = js_inf_of_sign (- a)"
| "js_mul PInf PInf = PInf"
| "js_mul NInf NInf = PInf"
| "js_mul PInf NInf = NInf"
| "js_mul NInf PInf = NInf"

text \<open>
  Division: a finite value by zero is \<open>NaN\<close> for \<open>0 / 0\<close> and an infinity otherwise
  (zero is taken as \<open>+0\<close>: the model has no signed zero); an infinity by a finite
  value keeps the sign rule; two infinities give \<open>NaN\<close>.
\<close>

fun js_div :: "jsnum \<Rightarrow> jsnum \<Rightarrow> jsnum" where
  "js_div (Fin a) (Fin b) = (if b = 0 then js_inf_of_sign a else Fin (a / b))"
| "js_div NaN _ = NaN"
| "js_div _ NaN = NaN"
| "js_div (Fin a) PInf = Fin 0"
| "js_div (Fin a) NInf = Fin 0"
| "js_div PInf (Fin b) = (if 0 \<le> b then PInf else NInf)"
| "js_div NInf (Fin b) = (if 0 \<le> b then NInf else PInf)"
| "js_div _ _ = NaN"

text \<open>\<^verbatim>\<open>xs.reduce((a, b) => a + b, 0)\<close>: a left fold from \<open>0\<close>.\<close>

definition js_sum :: "jsnum list \<Rightarrow> jsnum" where
  "js_sum xs = foldl js_add (Fin 0) xs"

text \<open>The value of a finite number (0 for the others), for stating properties.\<close>

fun js_val :: "jsnum \<Rightarrow> rat" where
  "js_val (Fin q) = q"
| "js_val _ = 0"

section \<open>JavaScript strings\<close>

text \<open>
  \<^verbatim>\<open>String.prototype.toLowerCase\<close> on the ASCII letters (addresses and chain names
  are ASCII; the Unicode case mapping beyond ASCII is not modelled).
\<close>

definition to_lower_char :: "char \<Rightarrow> char" where
  "to_lower_char c =
     (let n = (of_char c :: nat) in if 65 \<le> n \<and> n \<le> 90 then char_of (n + 32) else c)"

definition is_upper_char :: "char \<Rightarrow> bool" where
  "is_upper_char c = (let n = (of_char c :: nat) in 65 \<le> n \<and> n \<le> 90)"

definition to_lower :: "string \<Rightarrow> string" where
  "to_lower s = map to_lower_char s"

text \<open>\<^verbatim>\<open>Array.prototype.join(sep)\<close>, also what a template literal prints for an array
  (with the separator \<^verbatim>\<open>,\<close>).\<close>

fun js_join :: "string \<Rightarrow> string list \<Rightarrow> string" where
  "js_join sep [] = []"
| "js_join sep [x] = x"
| "js_join sep (x # xs) = x @ sep @ js_join sep xs"

text \<open>A template literal prints \<^verbatim>\<open>undefined\<close> for a missing value.\<close>

fun js_str :: "string option \<Rightarrow> string" where
  "js_str None = ''undefined''"
| "js_str (Some s) = s"

section \<open>Shared lemmas\<close>

subsection \<open>Finiteness of the arithmetic\<close>

lemma js_is_finite_iff [js_num_simps]: "js_is_finite x \<longleftrightarrow> (\<exists>q. x = Fin q)"
  by (cases x) auto

lemma js_add_finite_iff [simp]:
  "js_is_finite (js_add a b) \<longleftrightarrow> js_is_finite a \<and> js_is_finite b"
  by (cases a; cases b) auto

lemma js_inf_of_sign_not_finite [simp]: "\<not> js_is_finite (js_inf_of_sign q)"
  by (simp add: js_inf_of_sign_def)

lemma js_mul_finite_iff [simp]:
  "js_is_finite (js_mul a b) \<longleftrightarrow> js_is_finite a \<and> js_is_finite b"
  by (cases a; cases b) auto


lemma js_sum_Fin_foldl:
  "foldl js_add (Fin c) (map Fin qs) = Fin (c + sum_list qs)"
  by (induction qs arbitrary: c) (simp_all add: add.assoc)

lemma js_sum_Fin [js_num_simps]: "js_sum (map Fin qs) = Fin (sum_list qs)"
  by (simp add: js_sum_def js_sum_Fin_foldl)

lemma js_sum_Nil [simp]: "js_sum [] = Fin 0"
  by (simp add: js_sum_def)


lemma Fin_js_val [simp]: "js_is_finite x \<Longrightarrow> Fin (js_val x) = x"
  by (cases x) simp_all

lemma js_add_Fin0_left [simp]: "js_add (Fin 0) x = x"
  by (cases x) simp_all

lemma js_add_Fin0_right [simp]: "js_add x (Fin 0) = x"
  by (cases x) simp_all

lemma js_sum_map_Fin [simp]: "js_sum (map (\<lambda>d. Fin (f d)) ds) = Fin (sum_list (map f ds))"
  using js_sum_Fin [of "map f ds"] by (simp add: comp_def)

lemma map2_js_mul_map_Fin [simp]:
  "map2 js_mul (map (\<lambda>d. Fin (f d)) ds) (map (\<lambda>d. Fin (g d)) ds) = map (\<lambda>d. Fin (f d * g d)) ds"
  by (induction ds) simp_all

subsection \<open>Weighted averages\<close>

lemma weighted_sum_bounds:
  fixes f g :: "'a \<Rightarrow> rat"
  assumes "\<forall>d\<in>set ds. 0 \<le> f d" and "\<forall>d\<in>set ds. lo \<le> g d \<and> g d \<le> hi"
  shows "lo * sum_list (map f ds) \<le> sum_list (map (\<lambda>d. f d * g d) ds)
       \<and> sum_list (map (\<lambda>d. f d * g d) ds) \<le> hi * sum_list (map f ds)"
  using assms
proof (induction ds)
  case Nil
  then show ?case by simp
next
  case (Cons d ds)
  then have "lo * f d \<le> g d * f d" and "g d * f d \<le> hi * f d"
    by (simp_all add: mult_right_mono)
  with Cons show ?case by (simp add: distrib_left mult.commute [of "g d" "f d"])
qed

lemma weighted_avg_bounds:
  fixes f g :: "'a \<Rightarrow> rat"
  assumes "\<forall>d\<in>set ds. 0 \<le> f d" and "\<forall>d\<in>set ds. lo \<le> g d \<and> g d \<le> hi"
    and "0 \<le> w0" and "lo \<le> x0" and "x0 \<le> hi" and "0 < w0 + sum_list (map f ds)"
  shows "lo \<le> (w0 * x0 + sum_list (map (\<lambda>d. f d * g d) ds)) / (w0 + sum_list (map f ds))
       \<and> (w0 * x0 + sum_list (map (\<lambda>d. f d * g d) ds)) / (w0 + sum_list (map f ds)) \<le> hi"
proof -
  from assms(3-5) have "lo * w0 \<le> x0 * w0" and "x0 * w0 \<le> hi * w0"
    by (simp_all add: mult_right_mono)
  with weighted_sum_bounds [OF assms(1,2)] assms(6) show ?thesis
    by (simp add: pos_le_divide_eq pos_divide_le_eq distrib_left mult.commute [of x0 w0])
qed

subsection \<open>Lower case\<close>

lemma to_lower_char_not_upper [simp]: "\<not> is_upper_char (to_lower_char c)"
  by (simp add: to_lower_char_def is_upper_char_def Let_def)

lemma to_lower_char_idem [simp]: "to_lower_char (to_lower_char c) = to_lower_char c"
  by (simp add: to_lower_char_def Let_def)

lemma to_lower_idem [simp]: "to_lower (to_lower s) = to_lower s"
  by (simp add: to_lower_def comp_def)

lemma to_lower_append [simp]: "to_lower (s @ t) = to_lower s @ to_lower t"
  by (simp add: to_lower_def)

lemma to_lower_no_upper: "c \<in> set (to_lower s) \<Longrightarrow> \<not> is_upper_char c"
  by (auto simp: to_lower_def)

end
