(* ===== verification/Big_Number.thy ===== *)
theory Big_Number
  imports Yield_Prelude
begin

text \<open>
  The \<^verbatim>\<open>bignumber.js\<close> constructor as the adaptor calls it on subgraph strings
  (\<^verbatim>\<open>new BigNumber(item.totalLiquidity).gt(0)\<close>, \<^verbatim>\<open>new BigNumber(item.totalLp).gt(0)\<close>,
  src/src/adaptors/extra-finance/index.js lines 55 and 58).

  The library reads a string in two passes. The first accepts the decimal syntax
  \<^verbatim>\<open>-?(\d+(\.\d*)?|\.\d+)(e[+-]?\d+)?\<close> (the exponent letter in either case). Otherwise it
  strips leading white space together with a \<^verbatim>\<open>+\<close> that precedes a word character or a
  dot, and trailing white space; it reads \<^verbatim>\<open>Infinity\<close>, \<^verbatim>\<open>-Infinity\<close> and \<^verbatim>\<open>NaN\<close>;
  and when the stripping changed the string it reads the stripped string once more.
  Anything else is \<^verbatim>\<open>NaN\<close> (the library's DEBUG mode, which throws instead, is off).
  Not modelled: the base prefixes \<^verbatim>\<open>0x\<close>, \<^verbatim>\<open>0b\<close>, \<^verbatim>\<open>0o\<close> (read here as \<^verbatim>\<open>NaN\<close>;
  the subgraph writes BigInt and BigDecimal values in decimal), white space beyond ASCII,
  and the exponent limits \<open>\<plusminus>10\<^sup>9\<close> beyond which the library rounds to zero or infinity.
\<close>

section \<open>Characters\<close>

definition is_digit_char :: "char \<Rightarrow> bool" where
  "is_digit_char c = (let n = (of_char c :: nat) in 48 \<le> n \<and> n \<le> 57)"

definition digit_value :: "char \<Rightarrow> nat" where
  "digit_value c = of_char c - 48"

definition is_js_space :: "char \<Rightarrow> bool" where
  "is_js_space c = ((of_char c :: nat) \<in> {9, 10, 11, 12, 13, 32})"

definition is_word_char :: "char \<Rightarrow> bool" where
  "is_word_char c =
     (let n = (of_char c :: nat) in
      is_digit_char c \<or> (65 \<le> n \<and> n \<le> 90) \<or> (97 \<le> n \<and> n \<le> 122) \<or> n = 95)"

definition is_exp_char :: "char \<Rightarrow> bool" where
  "is_exp_char c = (c = CHR ''e'' \<or> c = CHR ''E'')"

definition digits_nat :: "string \<Rightarrow> nat" where
  "digits_nat ds = foldl (\<lambda>acc c. 10 * acc + digit_value c) 0 ds"

section \<open>The decimal syntax\<close>

text \<open>\<^verbatim>\<open>\d+(\.\d*)?|\.\d+\<close>: digits with an optional fraction, at least one digit.\<close>

definition parse_mantissa :: "string \<Rightarrow> rat option" where
  "parse_mantissa m =
     (let ip = takeWhile is_digit_char m; r = dropWhile is_digit_char m in
      if r = [] then (if ip = [] then None else Some (of_nat (digits_nat ip)))
      else if hd r = CHR ''.'' \<and> list_all is_digit_char (tl r) \<and> (ip \<noteq> [] \<or> tl r \<noteq> [])
      then Some (of_nat (digits_nat (ip @ tl r)) / 10 ^ length (tl r))
      else None)"

text \<open>\<^verbatim>\<open>[+-]?\d+\<close> after the exponent letter.\<close>

definition parse_exponent :: "string \<Rightarrow> int option" where
  "parse_exponent e =
     (let (sg, ds) = (if e \<noteq> [] \<and> hd e = CHR ''-'' then (-1 :: int, tl e)
                      else if e \<noteq> [] \<and> hd e = CHR ''+'' then (1, tl e) else (1, e))
      in if ds \<noteq> [] \<and> list_all is_digit_char ds then Some (sg * int (digits_nat ds)) else None)"

definition scale10 :: "rat \<Rightarrow> int \<Rightarrow> rat" where
  "scale10 m k = (if 0 \<le> k then m * 10 ^ nat k else m / 10 ^ nat (- k))"

definition parse_unsigned :: "string \<Rightarrow> rat option" where
  "parse_unsigned s =
     (case parse_mantissa (takeWhile (\<lambda>c. \<not> is_exp_char c) s) of
        None \<Rightarrow> None
      | Some m \<Rightarrow>
          (let e = dropWhile (\<lambda>c. \<not> is_exp_char c) s in
           if e = [] then Some m else map_option (scale10 m) (parse_exponent (tl e))))"

definition parse_numeric :: "string \<Rightarrow> rat option" where
  "parse_numeric s =
     (if s \<noteq> [] \<and> hd s = CHR ''-'' then map_option uminus (parse_unsigned (tl s))
      else parse_unsigned s)"

section \<open>The fallback pass\<close>

text \<open>\<^verbatim>\<open>str.replace(/^\s*\+(?=[\w.])|^\s+|\s+$/g, '')\<close>.\<close>

definition strip_leading :: "string \<Rightarrow> string" where
  "strip_leading s =
     (let t = dropWhile is_js_space s in
      if 2 \<le> length t \<and> hd t = CHR ''+'' \<and> (is_word_char (t ! 1) \<or> t ! 1 = CHR ''.'')
      then tl t else t)"

definition strip_space_plus :: "string \<Rightarrow> string" where
  "strip_space_plus s = rev (dropWhile is_js_space (rev (strip_leading s)))"

definition parse_bignumber :: "string \<Rightarrow> jsnum" where
  "parse_bignumber s =
     (case parse_numeric s of
        Some q \<Rightarrow> Fin q
      | None \<Rightarrow>
          (let t = strip_space_plus s in
           if t = ''Infinity'' then PInf
           else if t = ''-Infinity'' then NInf
           else if t = ''NaN'' \<or> t = ''-NaN'' then NaN
           else if t \<noteq> s then (case parse_numeric t of Some q \<Rightarrow> Fin q | None \<Rightarrow> NaN)
           else NaN))"

text \<open>\<^verbatim>\<open>new BigNumber(s).gt(0)\<close>.\<close>

definition bn_positive :: "string \<Rightarrow> bool" where
  "bn_positive s = js_gt_zero (parse_bignumber s)"

section \<open>Decimal strings as the subgraph writes them\<close>

text \<open>The decimal form of a natural number, as a GraphQL \<^verbatim>\<open>BigInt\<close> is serialised.\<close>

fun decimal_of_nat :: "nat \<Rightarrow> string" where
  "decimal_of_nat n =
     (if n < 10 then [char_of (48 + n)]
      else decimal_of_nat (n div 10) @ [char_of (48 + n mod 10)])"

declare decimal_of_nat.simps [simp del]

section \<open>Evaluation and the decimal round trip\<close>

text \<open>The unfoldings that evaluate the parser on a literal string with \<open>simp\<close>.\<close>
lemmas bn_eval = bn_positive_def parse_bignumber_def parse_numeric_def parse_unsigned_def
  parse_mantissa_def parse_exponent_def scale10_def digits_nat_def digit_value_def
  is_digit_char_def is_exp_char_def strip_space_plus_def strip_leading_def is_js_space_def
  is_word_char_def

lemma is_digit_char_of_digit: "(d::nat) < 10 \<Longrightarrow> is_digit_char (char_of (48 + d))"
  by (simp add: is_digit_char_def of_char_of Let_def)

lemma digit_value_of_digit: "(d::nat) < 10 \<Longrightarrow> digit_value (char_of (48 + d)) = d"
  by (simp add: digit_value_def of_char_of)

lemma digits_nat_snoc: "digits_nat (ds @ [c]) = 10 * digits_nat ds + digit_value c"
  by (simp add: digits_nat_def)

lemma decimal_of_nat_digits: "list_all is_digit_char (decimal_of_nat n)"
proof (induction n rule: decimal_of_nat.induct)
  case (1 n)
  then show ?case by (subst decimal_of_nat.simps) (simp add: is_digit_char_of_digit)
qed

lemma decimal_of_nat_nonempty: "decimal_of_nat n \<noteq> []"
  by (subst decimal_of_nat.simps) simp

lemma digits_nat_decimal_of_nat: "digits_nat (decimal_of_nat n) = n"
proof (induction n rule: decimal_of_nat.induct)
  case (1 n)
  then show ?case
    by (subst decimal_of_nat.simps)
       (simp add: digits_nat_snoc digit_value_of_digit digits_nat_def)
qed

lemma digit_not_exp: "is_digit_char c \<Longrightarrow> \<not> is_exp_char c"
  by (auto simp: is_digit_char_def is_exp_char_def)

lemma list_all_digits_no_exp:
  assumes "list_all is_digit_char ds"
  shows "takeWhile (\<lambda>c. \<not> is_exp_char c) ds = ds" and "dropWhile (\<lambda>c. \<not> is_exp_char c) ds = []"
  using assms by (auto simp: list_all_iff digit_not_exp)

lemma parse_mantissa_digits:
  assumes "list_all is_digit_char ds" and "ds \<noteq> []"
  shows "parse_mantissa ds = Some (of_nat (digits_nat ds))"
proof -
  from assms(1) have t: "takeWhile is_digit_char ds = ds" and d: "dropWhile is_digit_char ds = []"
    by (simp_all add: list_all_iff)
  from assms(2) show ?thesis by (simp add: parse_mantissa_def Let_def t d)
qed

lemma parse_numeric_decimal_of_nat: "parse_numeric (decimal_of_nat n) = Some (of_nat n)"
proof -
  let ?s = "decimal_of_nat n"
  have d: "list_all is_digit_char ?s" by (rule decimal_of_nat_digits)
  have ne: "?s \<noteq> []" by (rule decimal_of_nat_nonempty)
  have "\<not> is_digit_char CHR ''-''" by (simp add: is_digit_char_def)
  with d ne have "hd ?s \<noteq> CHR ''-''" by (cases ?s) auto
  then show ?thesis
    by (simp add: parse_numeric_def parse_unsigned_def list_all_digits_no_exp [OF d]
        parse_mantissa_digits [OF d ne] digits_nat_decimal_of_nat)
qed

lemma parse_bignumber_decimal_of_nat: "parse_bignumber (decimal_of_nat n) = Fin (of_nat n)"
  by (simp add: parse_bignumber_def parse_numeric_decimal_of_nat)

lemma decimal_of_nat_hd_not_minus: "hd (decimal_of_nat n @ s) \<noteq> CHR ''-''"
proof -
  have "list_all is_digit_char (decimal_of_nat n)" by (rule decimal_of_nat_digits)
  moreover have "\<not> is_digit_char CHR ''-''" by (simp add: is_digit_char_def)
  ultimately show ?thesis using decimal_of_nat_nonempty [of n]
    by (cases "decimal_of_nat n") auto
qed

lemma parse_unsigned_decimal_of_nat: "parse_unsigned (decimal_of_nat n) = Some (of_nat n)"
  using parse_numeric_decimal_of_nat [of n] decimal_of_nat_hd_not_minus [of n "[]"]
  by (simp add: parse_numeric_def)

text \<open>
  C21. The eligibility filter reads the subgraph's decimal BigInt strings exactly: the
  string of a natural number reads back as that number, and passes the \<open>> 0\<close> test
  exactly when the number is positive.
\<close>

theorem bn_positive_decimal_of_nat:
  "parse_bignumber (decimal_of_nat n) = Fin (of_nat n) \<and> (bn_positive (decimal_of_nat n) \<longleftrightarrow> 0 < n)"
  by (simp add: bn_positive_def parse_bignumber_decimal_of_nat)

text \<open>
  C22. A negative decimal string reads as the negative number and fails the \<open>> 0\<close>
  eligibility test.
\<close>

theorem bn_positive_negative_decimal:
  "parse_bignumber (''-'' @ decimal_of_nat n) = Fin (- of_nat n) \<and> \<not> bn_positive (''-'' @ decimal_of_nat n)"
  by (simp add: bn_positive_def parse_bignumber_def parse_numeric_def parse_unsigned_decimal_of_nat)

end
