(* ===== verification/Subgraph_Data.thy ===== *)
theory Subgraph_Data
  imports Big_Number
begin

text \<open>
  The raw data of the adaptor: the two entity lists the GraphQL query of
  \<^verbatim>\<open>getPoolsData\<close> selects (src/src/adaptors/extra-finance/index.js lines 24-51), with
  every field the query names, and the two constants of the module (lines 14-17).
  GraphQL \<^verbatim>\<open>BigInt\<close> and \<^verbatim>\<open>BigDecimal\<close> fields arrive as strings, flags as booleans.
  The GraphQL \<^verbatim>\<open>id\<close> of each entity is \<open>vault_key\<close> and \<open>reserve_key\<close> here
  (\<open>id\<close> is the identity function of HOL).
\<close>

record vault =
  vault_key :: string
  vault_id :: string
  block_number :: string
  block_timestamp :: string
  pair :: address
  token0 :: address
  token1 :: address
  stable :: bool
  paused :: bool
  frozen :: bool
  borrowing_enabled :: bool
  max_leverage :: string
  total_lp :: string
  debt_position_id0 :: string
  debt_position_id1 :: string

record lending_reserve_pool =
  reserve_key :: string
  reserve_id :: string
  underlying_token_address :: address
  e_token_address :: address
  total_liquidity :: string
  total_borrows :: string
  borrowing_rate :: string

text \<open>The document \<^verbatim>\<open>request(subgraphUrls[chain], graphQuery)\<close> resolves to.\<close>

record query_result =
  vaults :: "vault list"
  lending_reserve_pools :: "lending_reserve_pool list"

definition project :: string where
  "project = ''extra-finance''"

definition subgraph_urls :: "chain_name \<rightharpoonup> string" where
  "subgraph_urls = [''optimism'' \<mapsto> ''https://api.thegraph.com/subgraphs/name/extrafi/extrasubgraph'']"

text \<open>The two eligibility filters of lines 54-59.\<close>

definition filtered_lending_pools :: "query_result \<Rightarrow> lending_reserve_pool list" where
  "filtered_lending_pools q = filter (\<lambda>item. bn_positive (total_liquidity item)) (lending_reserve_pools q)"

definition filtered_farming_pools :: "query_result \<Rightarrow> vault list" where
  "filtered_farming_pools q = filter (\<lambda>item. bn_positive (total_lp item)) (vaults q)"

end
