(* ===== verification/Price_Resolver.thy ===== *)
theory Price_Resolver
  imports Subgraph_Data
begin

text \<open>
  The Price Resolver side of the adaptor (src/src/adaptors/extra-finance/index.js
  lines 61-89): the list of token addresses to price (\<^verbatim>\<open>getTokenAddresses\<close>), the
  coin keys and the one URL of the price request, and the lookup \<^verbatim>\<open>getTokenInfo\<close> in
  the response. The price service itself is a collaborator: its response, the object
  \<^verbatim>\<open>body.coins\<close>, is a map from coin keys to token prices (\<open>price_map\<close>); a key the
  service could not price is absent.
\<close>

record token_price =
  token_symbol :: string
  price :: rat
  decimals :: nat

type_synonym price_map = "string \<rightharpoonup> token_price"

section \<open>The addresses to price\<close>

text \<open>\<^verbatim>\<open>if (!result.includes(a)) result.push(a)\<close>: the comparison is JavaScript string
  equality, so two spellings of one address in different case are both kept.\<close>

definition push_if_absent :: "address list \<Rightarrow> address \<Rightarrow> address list" where
  "push_if_absent result a = (if a \<in> set result then result else result @ [a])"

text \<open>The body of \<^verbatim>\<open>queryResult.vaults.forEach\<close> (lines 67-72).\<close>

definition add_vault_tokens :: "address list \<Rightarrow> vault \<Rightarrow> address list" where
  "add_vault_tokens result item = push_if_absent (push_if_absent result (token0 item)) (token1 item)"

text \<open>
  \<^verbatim>\<open>getTokenAddresses\<close>: the underlying tokens of the filtered lending pools, in order and
  as they are (no deduplication among them), then the two tokens of every vault of the
  query (paused and empty ones included) that are not yet in the list.
\<close>

definition get_token_addresses :: "lending_reserve_pool list \<Rightarrow> vault list \<Rightarrow> address list" where
  "get_token_addresses lending vs = foldl add_vault_tokens (map underlying_token_address lending) vs"

text \<open>Lines 78-80: \<^verbatim>\<open>chain ? tokenAddresses.map(a => `${chain}:${a}`) : tokenAddresses\<close>;
  the empty string is the one falsy chain name.\<close>

definition coins :: "chain_name \<Rightarrow> address list \<Rightarrow> string list" where
  "coins chain addrs = (if chain = [] then addrs else map (\<lambda>a. chain @ '':'' @ a) addrs)"

text \<open>Line 83: the array in the template literal prints joined by commas.\<close>

definition price_url :: "string list \<Rightarrow> string" where
  "price_url cs = ''https://coins.llama.fi/prices/current/'' @ js_join '','' cs"

section \<open>The lookup\<close>

definition coin_key :: "chain_name \<Rightarrow> address \<Rightarrow> string" where
  "coin_key chain a = chain @ '':'' @ to_lower a"

text \<open>\<^verbatim>\<open>prices[coinKey] || {}\<close>: a missing entry is the empty object, \<open>None\<close> here.\<close>

definition get_token_info :: "price_map \<Rightarrow> chain_name \<Rightarrow> address \<Rightarrow> token_price option" where
  "get_token_info prices chain a = prices (coin_key chain a)"

text \<open>A price service that prices every requested coin and keys the answer by the coin
  exactly as it was requested.\<close>

definition response_as_requested :: "string list \<Rightarrow> token_price list \<Rightarrow> price_map" where
  "response_as_requested cs ps = map_of (zip cs ps)"

text \<open>The price service's contract (spec 3, 4.1 and 6): its answer is keyed by
  \<^verbatim>\<open><chain>:<lower-cased address>\<close> for the requested addresses, and a coin it cannot
  price is absent. \<open>quote\<close> is what the service can price, keyed the same way.\<close>

definition price_service_response :: "price_map \<Rightarrow> chain_name \<Rightarrow> address list \<Rightarrow> price_map" where
  "price_service_response quote chain addrs k =
     (if k \<in> set (map (\<lambda>a. chain @ '':'' @ to_lower a) addrs) then quote k else None)"

section \<open>Lemmas\<close>

lemma set_push_if_absent [simp]: "set (push_if_absent r a) = insert a (set r)"
  by (auto simp: push_if_absent_def)

lemma distinct_push_if_absent [simp]: "distinct (push_if_absent r a) = distinct r"
  by (simp add: push_if_absent_def)

lemma prefix_push_if_absent: "prefix r (push_if_absent r a)"
  by (simp add: push_if_absent_def)

lemma set_foldl_add_vault_tokens:
  "set (foldl add_vault_tokens acc vs) = set acc \<union> (\<Union>v\<in>set vs. {token0 v, token1 v})"
  by (induction vs arbitrary: acc) (auto simp: add_vault_tokens_def)

lemma distinct_foldl_add_vault_tokens:
  "distinct (foldl add_vault_tokens acc vs) = distinct acc"
  by (induction vs arbitrary: acc) (simp_all add: add_vault_tokens_def)

lemma prefix_foldl_add_vault_tokens: "prefix acc (foldl add_vault_tokens acc vs)"
proof (induction vs arbitrary: acc)
  case Nil
  then show ?case by simp
next
  case (Cons v vs)
  have "prefix acc (add_vault_tokens acc v)"
    unfolding add_vault_tokens_def
    by (rule prefix_order.trans [OF prefix_push_if_absent prefix_push_if_absent])
  with Cons.IH [of "add_vault_tokens acc v"] show ?case
    by (simp add: prefix_order.trans)
qed

lemma get_token_info_price_service_response:
  "a \<in> set addrs \<Longrightarrow>
     get_token_info (price_service_response quote chain addrs) chain a = quote (chain @ '':'' @ to_lower a)"
  by (auto simp: get_token_info_def coin_key_def price_service_response_def)

section \<open>Properties of the address list and the lookup\<close>

text \<open>
  C16. The price request covers every token the adaptor will look up: the addresses to
  price are exactly the underlying tokens of the filtered lending pools and the two
  tokens of every vault of the query.
\<close>

theorem get_token_addresses_set:
  "set (get_token_addresses lending vs) =
     underlying_token_address ` set lending \<union> (\<Union>v\<in>set vs. {token0 v, token1 v})"
  by (simp add: get_token_addresses_def set_foldl_add_vault_tokens)

text \<open>
  C17. The vault loop adds no duplicate, but the lending addresses are not deduplicated:
  the address list is duplicate-free exactly when the lending pools' underlying tokens
  are pairwise distinct.
\<close>

theorem get_token_addresses_distinct:
  "distinct (get_token_addresses lending vs) \<longleftrightarrow> distinct (map underlying_token_address lending)"
  by (simp add: get_token_addresses_def distinct_foldl_add_vault_tokens)

text \<open>
  C18. Order: the lending pools' underlying tokens come first, in source order, and the
  vault loop only appends.
\<close>

theorem get_token_addresses_prefix:
  "prefix (map underlying_token_address lending) (get_token_addresses lending vs)"
  by (simp add: get_token_addresses_def prefix_foldl_add_vault_tokens)

text \<open>
  C19. The request key (line 79) and the lookup key (line 87) agree on lower-case addresses:
  when the price service prices every requested coin and keys its answer by the coin as
  requested, a requested token whose address is in lower case is found.
\<close>

theorem get_token_info_lower_case_found:
  assumes "chain \<noteq> []" and "a \<in> set addrs" and "to_lower a = a" and "length ps = length addrs"
  shows "get_token_info (response_as_requested (coins chain addrs) ps) chain a \<noteq> None"
proof -
  have "coin_key chain a \<in> set (coins chain addrs)"
    using assms by (auto simp: coin_key_def coins_def)
  moreover have "length (coins chain addrs) = length ps"
    using assms by (simp add: coins_def)
  ultimately show ?thesis
    by (simp add: get_token_info_def response_as_requested_def map_of_zip_is_None)
qed

theorem get_token_info_lower_case_found_witness:
  "get_token_info
     (response_as_requested (coins ''optimism'' [''0xab''])
        [\<lparr>token_symbol = ''WETH'', price = 2, decimals = 18\<rparr>])
     ''optimism'' ''0xab'' \<noteq> None"
proof -
  have "to_lower ''0xab'' = ''0xab''" by code_simp
  then show ?thesis
    using get_token_info_lower_case_found [of "''optimism''" "''0xab''" "[''0xab'']"
        "[\<lparr>token_symbol = ''WETH'', price = 2, decimals = 18\<rparr>]"]
    by simp
qed

text \<open>
  C20. The lookup is insensitive to the case of the address it is given: looking up an
  address and its lower-case form gives the same entry.
\<close>

theorem get_token_info_to_lower:
  "get_token_info prices chain (to_lower a) = get_token_info prices chain a"
  by (simp add: get_token_info_def coin_key_def)

end
