(* ===== verification/Lending_Metrics.thy ===== *)
theory Lending_Metrics
  imports Price_Resolver
begin

text \<open>
  The Lending Metrics Engine and the lending half of the pool assembly.
  \<^verbatim>\<open>getLendPoolTvl\<close> and \<^verbatim>\<open>getLendPoolApy\<close> live in \<^verbatim>\<open>./compute\<close>, which is not among
  the sources: they are modelled from the spec (4.2). The TVL is the liquidity in token
  units (the raw amount over \<open>10 ^ decimals\<close>, as the spec's 18-decimals scenario fixes)
  times the USD price, and 0 when the price is unknown. The APY converts the raw rate with
  the protocol's compounding constants, which the spec leaves open and asks to be an
  explicit configuration value (9): \<open>lend_config\<close> holds the scale of the raw rate and
  the number of compounding periods per year. A rate that does not read as a finite
  number gives 0.

  The record builder \<^verbatim>\<open>pools.push({...})\<close> of lines 91-104 is modelled from the source:
  \<open>lend_pool_record\<close> builds one record, \<open>lending_records\<close> maps it over the filtered
  lending pools in order. \<^verbatim>\<open>utils.formatChain\<close> is a collaborator passed as a function.
\<close>

record lend_config =
  rate_scale :: rat
  periods_per_year :: nat

definition wf_lend_config :: "lend_config \<Rightarrow> bool" where
  "wf_lend_config cfg \<longleftrightarrow> 0 < rate_scale cfg \<and> 0 < periods_per_year cfg"

text \<open>The output schema (\<^verbatim>\<open>pools.push({pool, chain, project, symbol, ...})\<close>);
  \<open>symbol\<close> is \<open>None\<close> where the source pushes \<^verbatim>\<open>undefined\<close>.\<close>

record pool_record =
  pool :: string
  pool_chain :: string
  pool_project :: string
  symbol :: "string option"
  underlying_tokens :: "address list"
  pool_meta :: string
  tvl_usd :: jsnum
  apy_base :: jsnum

section \<open>The engine\<close>

text \<open>The USD value of a raw token amount: the amount in token units times the price,
  0 for a token without price. Shared with the vault engine.\<close>

definition token_usd :: "token_price option \<Rightarrow> jsnum \<Rightarrow> jsnum" where
  "token_usd ti amount =
     (case ti of
        None \<Rightarrow> Fin 0
      | Some p \<Rightarrow> js_mul (js_div amount (Fin (10 ^ decimals p))) (Fin (price p)))"

definition get_lend_pool_tvl :: "lending_reserve_pool \<Rightarrow> token_price option \<Rightarrow> jsnum" where
  "get_lend_pool_tvl r ti = token_usd ti (parse_bignumber (total_liquidity r))"

definition compound_apy :: "lend_config \<Rightarrow> rat \<Rightarrow> rat" where
  "compound_apy cfg x = ((1 + x / rate_scale cfg) ^ periods_per_year cfg - 1) * 100"

definition get_lend_pool_apy :: "lend_config \<Rightarrow> lending_reserve_pool \<Rightarrow> jsnum" where
  "get_lend_pool_apy cfg r =
     (case parse_bignumber (borrowing_rate r) of
        Fin x \<Rightarrow> Fin (compound_apy cfg x)
      | _ \<Rightarrow> Fin 0)"

section \<open>The lending records\<close>

definition lend_pool_record ::
  "(chain_name \<Rightarrow> string) \<Rightarrow> lend_config \<Rightarrow> price_map \<Rightarrow> chain_name \<Rightarrow> lending_reserve_pool
     \<Rightarrow> pool_record" where
  "lend_pool_record format_chain cfg prices ch r =
     (let ti = get_token_info prices ch (underlying_token_address r) in
      \<lparr>pool = to_lower (e_token_address r @ ''-'' @ ch),
       pool_chain = format_chain ch,
       pool_project = project,
       symbol = map_option token_symbol ti,
       underlying_tokens = [underlying_token_address r],
       pool_meta = ''Lending Pool'',
       tvl_usd = get_lend_pool_tvl r ti,
       apy_base = get_lend_pool_apy cfg r\<rparr>)"

definition lending_records ::
  "(chain_name \<Rightarrow> string) \<Rightarrow> lend_config \<Rightarrow> price_map \<Rightarrow> chain_name \<Rightarrow> lending_reserve_pool list
     \<Rightarrow> pool_record list" where
  "lending_records format_chain cfg prices ch rs = map (lend_pool_record format_chain cfg prices ch) rs"

declare lend_pool_record_def [pool_simps]

section \<open>Lemmas\<close>

lemma lend_pool_record_fields [simp]:
  "tvl_usd (lend_pool_record fc cfg prices ch r) =
     get_lend_pool_tvl r (get_token_info prices ch (underlying_token_address r))"
  "apy_base (lend_pool_record fc cfg prices ch r) = get_lend_pool_apy cfg r"
  "symbol (lend_pool_record fc cfg prices ch r) =
     map_option token_symbol (get_token_info prices ch (underlying_token_address r))"
  "pool (lend_pool_record fc cfg prices ch r) = to_lower (e_token_address r @ ''-'' @ ch)"
  "pool_meta (lend_pool_record fc cfg prices ch r) = ''Lending Pool''"
  "underlying_tokens (lend_pool_record fc cfg prices ch r) = [underlying_token_address r]"
  by (simp_all add: lend_pool_record_def Let_def)

lemma token_usd_None [simp]: "token_usd None x = Fin 0"
  by (simp add: token_usd_def)

lemma token_usd_Fin [simp]:
  "token_usd (Some p) (Fin q) = Fin (q / 10 ^ decimals p * price p)"
  by (simp add: token_usd_def)

lemma compound_apy_zero [simp]: "compound_apy cfg 0 = 0"
  by (simp add: compound_apy_def)

lemma compound_apy_mono:
  assumes "wf_lend_config cfg" and "0 \<le> x" and "x \<le> y"
  shows "compound_apy cfg x \<le> compound_apy cfg y"
proof -
  from assms have "0 \<le> 1 + x / rate_scale cfg" and "1 + x / rate_scale cfg \<le> 1 + y / rate_scale cfg"
    by (simp_all add: wf_lend_config_def divide_right_mono)
  then have "(1 + x / rate_scale cfg) ^ periods_per_year cfg \<le> (1 + y / rate_scale cfg) ^ periods_per_year cfg"
    by (rule power_mono [rotated])
  then show ?thesis by (simp add: compound_apy_def)
qed

lemma get_lend_pool_apy_finite [simp]: "js_is_finite (get_lend_pool_apy cfg r)"
  by (simp add: get_lend_pool_apy_def split: jsnum.split)

section \<open>Properties of the lending records\<close>

text \<open>
  C13. A lending record reads the price map at one key only, the coin key of the reserve's
  underlying token (line 92 passes \<^verbatim>\<open>underlyingTokenAddress\<close>, not the eToken): two
  price maps that agree there give the same record, TVL and symbol included.
\<close>

theorem lend_pool_record_price_locality:
  assumes "prices (coin_key ch (underlying_token_address r)) = prices' (coin_key ch (underlying_token_address r))"
  shows "lend_pool_record fc cfg prices ch r = lend_pool_record fc cfg prices' ch r"
  using assms by (simp add: lend_pool_record_def get_token_info_def)

theorem lend_pool_record_price_locality_witness:
  "lend_pool_record id \<lparr>rate_scale = 1, periods_per_year = 2\<rparr> Map.empty ''optimism''
      \<lparr>reserve_key = ''1'', reserve_id = ''1'', underlying_token_address = ''0xA'',
       e_token_address = ''0xE'', total_liquidity = ''1'', total_borrows = ''0'',
       borrowing_rate = ''0''\<rparr>
   = lend_pool_record id \<lparr>rate_scale = 1, periods_per_year = 2\<rparr>
      [''optimism:0xe'' \<mapsto> \<lparr>token_symbol = ''EXT'', price = 5, decimals = 0\<rparr>] ''optimism''
      \<lparr>reserve_key = ''1'', reserve_id = ''1'', underlying_token_address = ''0xA'',
       e_token_address = ''0xE'', total_liquidity = ''1'', total_borrows = ''0'',
       borrowing_rate = ''0''\<rparr>"
proof -
  have "to_lower ''0xA'' = ''0xa''" by code_simp
  then show ?thesis
    by (intro lend_pool_record_price_locality) (simp add: coin_key_def)
qed

text \<open>
  C14. A higher borrowing rate never gives a lower APY (for non-negative rates and a
  well-formed configuration).
\<close>

theorem lend_pool_record_apy_mono:
  assumes "wf_lend_config cfg"
    and "parse_bignumber (borrowing_rate r) = Fin x" and "parse_bignumber (borrowing_rate r') = Fin y"
    and "0 \<le> x" and "x \<le> y"
  shows "js_val (apy_base (lend_pool_record fc cfg prices ch r))
           \<le> js_val (apy_base (lend_pool_record fc cfg prices ch r'))"
  using assms compound_apy_mono by (simp add: get_lend_pool_apy_def)

theorem lend_pool_record_apy_mono_witness:
  "js_val (apy_base (lend_pool_record id \<lparr>rate_scale = 1, periods_per_year = 2\<rparr> Map.empty ''optimism''
        \<lparr>reserve_key = ''1'', reserve_id = ''1'', underlying_token_address = ''0xA'',
       e_token_address = ''0xE'', total_liquidity = ''1'', total_borrows = ''0'',
       borrowing_rate = ''0''\<rparr>))
     \<le> js_val (apy_base (lend_pool_record id \<lparr>rate_scale = 1, periods_per_year = 2\<rparr> Map.empty ''optimism''
               (\<lparr>reserve_key = ''1'', reserve_id = ''1'', underlying_token_address = ''0xA'',
       e_token_address = ''0xE'', total_liquidity = ''1'', total_borrows = ''0'',
       borrowing_rate = ''0''\<rparr>\<lparr>borrowing_rate := ''0.5''\<rparr>)))"
proof -
  have "parse_bignumber ''0'' = Fin 0" and "parse_bignumber ''0.5'' = Fin (1 / 2)"
    by (simp_all add: bn_eval)
  moreover have "wf_lend_config \<lparr>rate_scale = 1, periods_per_year = 2\<rparr>"
    by (simp add: wf_lend_config_def)
  ultimately show ?thesis
    using lend_pool_record_apy_mono [of "\<lparr>rate_scale = 1, periods_per_year = 2\<rparr>" "\<lparr>reserve_key = ''1'', reserve_id = ''1'', underlying_token_address = ''0xA'',
       e_token_address = ''0xE'', total_liquidity = ''1'', total_borrows = ''0'',
       borrowing_rate = ''0''\<rparr>" 0
        "\<lparr>reserve_key = ''1'', reserve_id = ''1'', underlying_token_address = ''0xA'',
       e_token_address = ''0xE'', total_liquidity = ''1'', total_borrows = ''0'',
       borrowing_rate = ''0''\<rparr>\<lparr>borrowing_rate := ''0.5''\<rparr>" "1 / 2" id Map.empty "''optimism''"]
    by simp
qed

end
