(* ===== verification/Vault_Metrics.thy ===== *)
theory Vault_Metrics
  imports Lending_Metrics
begin

text \<open>
  The Leverage Vault Metrics Engine and the vault half of the pool assembly.

  \<^verbatim>\<open>getAllVeloPoolInfo(vaults, chain, prices, reserves)\<close> lives in \<^verbatim>\<open>./compute\<close>, which
  is not among the sources; it is modelled from the spec (4.3). Its two collaborators are
  parameters (\<open>vault_env\<close>): the LP-unwrap helper, which gives the raw amounts of the two
  underlying tokens behind the vault's LP share or fails, and the farming base rate of the
  vault's pair. Per vault (\<open>vault_metrics\<close>):
  \<^item> the base TVL is the USD value of the unwrapped amounts, priced with the price map
    (an unpriced token counts 0, a failed unwrap gives 0);
  \<^item> the debt positions \<^verbatim>\<open>debtPositionId0\<close>, \<^verbatim>\<open>debtPositionId1\<close> are matched against the
    reserves' \<^verbatim>\<open>reserveId\<close>; each match adds its borrowed amount (the reserve's
    \<^verbatim>\<open>totalBorrows\<close>, priced with its underlying token) to the TVL;
  \<^item> the base APY is the farming rate when nothing matched, and otherwise the average of the
    farming rate and the matched reserves' lending APYs weighted by their USD amounts.
  Every vault gives one result, in order: a failure of one vault never stops the others.

  The record builder of lines 113-124 (\<^verbatim>\<open>parsedFarmPoolsInfo.forEach(async ...)\<close>) is
  modelled from the source. The callback is \<^verbatim>\<open>async\<close> but contains no \<^verbatim>\<open>await\<close>, so
  each \<^verbatim>\<open>pools.push\<close> runs synchronously inside \<^verbatim>\<open>forEach\<close>, in order, before
  \<^verbatim>\<open>getPoolsData\<close> reaches its \<^verbatim>\<open>return\<close>: the loop is a \<open>map\<close>.
\<close>

record vault_env =
  unwrap_lp :: "address \<Rightarrow> string \<Rightarrow> address \<Rightarrow> address \<Rightarrow> (rat \<times> rat) option"
  farm_apy :: "address \<Rightarrow> rat"

record vault_info =
  vi_pair :: address
  token0_symbol :: "string option"
  token1_symbol :: "string option"
  vi_token0 :: address
  vi_token1 :: address
  vi_tvl_usd :: jsnum
  base_apy :: jsnum

section \<open>The engine\<close>

definition base_tvl :: "vault_env \<Rightarrow> price_map \<Rightarrow> chain_name \<Rightarrow> vault \<Rightarrow> jsnum" where
  "base_tvl env prices ch v =
     (case unwrap_lp env (pair v) (total_lp v) (token0 v) (token1 v) of
        None \<Rightarrow> Fin 0
      | Some (a0, a1) \<Rightarrow>
          js_add (token_usd (get_token_info prices ch (token0 v)) (Fin a0))
                 (token_usd (get_token_info prices ch (token1 v)) (Fin a1)))"

definition debt_reserves :: "vault \<Rightarrow> lending_reserve_pool list \<Rightarrow> lending_reserve_pool list" where
  "debt_reserves v rs =
     List.map_filter (\<lambda>d. find (\<lambda>r. reserve_id r = d) rs) [debt_position_id0 v, debt_position_id1 v]"

definition borrowed_usd :: "price_map \<Rightarrow> chain_name \<Rightarrow> lending_reserve_pool \<Rightarrow> jsnum" where
  "borrowed_usd prices ch r =
     token_usd (get_token_info prices ch (underlying_token_address r)) (parse_bignumber (total_borrows r))"

definition blended_apy :: "jsnum \<Rightarrow> rat \<Rightarrow> jsnum list \<Rightarrow> jsnum list \<Rightarrow> jsnum" where
  "blended_apy own farm bs rates =
     js_div (js_add (js_mul own (Fin farm)) (js_sum (map2 js_mul bs rates)))
            (js_add own (js_sum bs))"

definition vault_metrics ::
  "lend_config \<Rightarrow> vault_env \<Rightarrow> price_map \<Rightarrow> chain_name \<Rightarrow> lending_reserve_pool list \<Rightarrow> vault
     \<Rightarrow> vault_info" where
  "vault_metrics cfg env prices ch rs v =
     (let own = base_tvl env prices ch v;
          ds = debt_reserves v rs;
          bs = map (borrowed_usd prices ch) ds
      in \<lparr>vi_pair = pair v,
          token0_symbol = map_option token_symbol (get_token_info prices ch (token0 v)),
          token1_symbol = map_option token_symbol (get_token_info prices ch (token1 v)),
          vi_token0 = token0 v,
          vi_token1 = token1 v,
          vi_tvl_usd = js_add own (js_sum bs),
          base_apy = (if ds = [] then Fin (farm_apy env (pair v))
                      else blended_apy own (farm_apy env (pair v)) bs
                             (map (get_lend_pool_apy cfg) ds))\<rparr>)"

definition get_all_velo_pool_info ::
  "lend_config \<Rightarrow> vault_env \<Rightarrow> vault list \<Rightarrow> chain_name \<Rightarrow> price_map \<Rightarrow> lending_reserve_pool list
     \<Rightarrow> vault_info list" where
  "get_all_velo_pool_info cfg env vs ch prices rs = map (vault_metrics cfg env prices ch rs) vs"

section \<open>The vault records\<close>

definition vault_pool_record :: "(chain_name \<Rightarrow> string) \<Rightarrow> chain_name \<Rightarrow> vault_info \<Rightarrow> pool_record" where
  "vault_pool_record format_chain ch info =
     \<lparr>pool = to_lower (vi_pair info @ ''-'' @ ch),
      pool_chain = format_chain ch,
      pool_project = project,
      symbol = Some (js_str (token0_symbol info) @ ''-'' @ js_str (token1_symbol info)),
      underlying_tokens = [vi_token0 info, vi_token1 info],
      pool_meta = ''Leveraged Yield Farming'',
      tvl_usd = vi_tvl_usd info,
      apy_base = base_apy info\<rparr>"

definition vault_records ::
  "(chain_name \<Rightarrow> string) \<Rightarrow> chain_name \<Rightarrow> vault_info list \<Rightarrow> pool_record list" where
  "vault_records format_chain ch infos = map (vault_pool_record format_chain ch) infos"

declare vault_pool_record_def [pool_simps]

section \<open>Lemmas\<close>

lemma vault_pool_record_fields [simp]:
  "tvl_usd (vault_pool_record fc ch i) = vi_tvl_usd i"
  "apy_base (vault_pool_record fc ch i) = base_apy i"
  "pool (vault_pool_record fc ch i) = to_lower (vi_pair i @ ''-'' @ ch)"
  "pool_meta (vault_pool_record fc ch i) = ''Leveraged Yield Farming''"
  "underlying_tokens (vault_pool_record fc ch i) = [vi_token0 i, vi_token1 i]"
  "symbol (vault_pool_record fc ch i) = Some (js_str (token0_symbol i) @ ''-'' @ js_str (token1_symbol i))"
  by (simp_all add: vault_pool_record_def)

lemma vault_metrics_fields [simp]:
  "vi_pair (vault_metrics cfg env prices ch rs v) = pair v"
  "vi_token0 (vault_metrics cfg env prices ch rs v) = token0 v"
  "vi_token1 (vault_metrics cfg env prices ch rs v) = token1 v"
  "vi_tvl_usd (vault_metrics cfg env prices ch rs v) =
     js_add (base_tvl env prices ch v) (js_sum (map (borrowed_usd prices ch) (debt_reserves v rs)))"
  "base_apy (vault_metrics cfg env prices ch rs v) =
     (if debt_reserves v rs = [] then Fin (farm_apy env (pair v))
      else blended_apy (base_tvl env prices ch v) (farm_apy env (pair v))
             (map (borrowed_usd prices ch) (debt_reserves v rs))
             (map (get_lend_pool_apy cfg) (debt_reserves v rs)))"
  "token0_symbol (vault_metrics cfg env prices ch rs v) =
     map_option token_symbol (get_token_info prices ch (token0 v))"
  "token1_symbol (vault_metrics cfg env prices ch rs v) =
     map_option token_symbol (get_token_info prices ch (token1 v))"
  by (simp_all add: vault_metrics_def Let_def)

lemma blended_apy_Fin:
  assumes "0 < own + sum_list (map f ds)"
  shows "blended_apy (Fin own) farm (map (\<lambda>d. Fin (f d)) ds) (map (\<lambda>d. Fin (g d)) ds) =
           Fin ((own * farm + sum_list (map (\<lambda>d. f d * g d) ds)) / (own + sum_list (map f ds)))"
  using assms by (simp add: blended_apy_def)

section \<open>Properties of the vault records\<close>

text \<open>
  C15. The vault APY is the capital-weighted average the spec (4.3) asks for: with finite
  non-negative USD amounts and a positive total, the record's TVL times its APY is the
  total yield, the vault's own capital at the farming rate plus each matched reserve's
  borrowed amount at its lending APY; and the APY lies between any bounds of these rates.
  (An unweighted mean meets the bounds but not the yield equation.)
\<close>

theorem vault_record_capital_weighted_apy:
  assumes own: "base_tvl env prices ch v = Fin own" "0 \<le> own"
    and borrowed: "\<forall>r\<in>set (debt_reserves v rs).
                     js_is_finite (borrowed_usd prices ch r) \<and> 0 \<le> js_val (borrowed_usd prices ch r)"
    and total: "0 < own + sum_list (map (\<lambda>r. js_val (borrowed_usd prices ch r)) (debt_reserves v rs))"
    and farm: "lo \<le> farm_apy env (pair v)" "farm_apy env (pair v) \<le> hi"
    and rates: "\<forall>r\<in>set (debt_reserves v rs).
                  lo \<le> js_val (get_lend_pool_apy cfg r) \<and> js_val (get_lend_pool_apy cfg r) \<le> hi"
  shows "\<exists>a. apy_base (vault_pool_record fc ch (vault_metrics cfg env prices ch rs v)) = Fin a
             \<and> lo \<le> a \<and> a \<le> hi
             \<and> js_mul (tvl_usd (vault_pool_record fc ch (vault_metrics cfg env prices ch rs v)))
                      (apy_base (vault_pool_record fc ch (vault_metrics cfg env prices ch rs v)))
                = Fin (own * farm_apy env (pair v)
                       + sum_list (map (\<lambda>r. js_val (borrowed_usd prices ch r) * js_val (get_lend_pool_apy cfg r))
                                      (debt_reserves v rs)))"
proof (cases "debt_reserves v rs = []")
  case True
  with farm own(1) show ?thesis by simp
next
  case False
  let ?ds = "debt_reserves v rs"
  let ?b = "\<lambda>r. js_val (borrowed_usd prices ch r)"
  let ?a = "\<lambda>r. js_val (get_lend_pool_apy cfg r)"
  let ?Y = "own * farm_apy env (pair v) + sum_list (map (\<lambda>r. ?b r * ?a r) ?ds)"
  let ?T = "own + sum_list (map ?b ?ds)"
  have bs: "map (borrowed_usd prices ch) ?ds = map (\<lambda>r. Fin (?b r)) ?ds"
    using borrowed by (auto simp: js_num_simps)
  have as: "map (get_lend_pool_apy cfg) ?ds = map (\<lambda>r. Fin (?a r)) ?ds"
    by simp
  have "lo \<le> ?Y / ?T \<and> ?Y / ?T \<le> hi"
    by (rule weighted_avg_bounds) (use own borrowed total farm rates in auto)
  moreover have "base_apy (vault_metrics cfg env prices ch rs v) = Fin (?Y / ?T)"
    using False total by (simp only: vault_metrics_fields if_False own(1) bs as blended_apy_Fin)
  moreover have "vi_tvl_usd (vault_metrics cfg env prices ch rs v) = Fin ?T"
    by (simp only: vault_metrics_fields own(1) bs js_sum_map_Fin js_add.simps)
  moreover have "?T * (?Y / ?T) = ?Y"
    using total by simp
  ultimately show ?thesis by simp
qed

theorem vault_record_capital_weighted_apy_witness:
  "\<exists>a. apy_base (vault_pool_record id ''optimism''
        (vault_metrics \<lparr>rate_scale = 1, periods_per_year = 2\<rparr>
           \<lparr>unwrap_lp = \<lambda>_ _ _ _. Some (2, 3), farm_apy = \<lambda>_. 10\<rparr>
           [''optimism:0xb'' \<mapsto> \<lparr>token_symbol = ''USDC'', price = 1, decimals = 0\<rparr>] ''optimism''
           [\<lparr>reserve_key = ''r'', reserve_id = ''7'', underlying_token_address = ''0xb'',
             e_token_address = ''0xe'', total_liquidity = ''5'', total_borrows = ''3'',
             borrowing_rate = ''0''\<rparr>]
           \<lparr>vault_key = ''v'', vault_id = ''1'', block_number = ''0'', block_timestamp = ''0'',
            pair = ''0xp'', token0 = ''0xb'', token1 = ''0xc'', stable = False, paused = False,
            frozen = False, borrowing_enabled = True, max_leverage = ''3'', total_lp = ''1'',
            debt_position_id0 = ''7'', debt_position_id1 = ''8''\<rparr>)) = Fin a
     \<and> 0 \<le> a \<and> a \<le> 10
     \<and> js_mul (tvl_usd (vault_pool_record id ''optimism''
        (vault_metrics \<lparr>rate_scale = 1, periods_per_year = 2\<rparr>
           \<lparr>unwrap_lp = \<lambda>_ _ _ _. Some (2, 3), farm_apy = \<lambda>_. 10\<rparr>
           [''optimism:0xb'' \<mapsto> \<lparr>token_symbol = ''USDC'', price = 1, decimals = 0\<rparr>] ''optimism''
           [\<lparr>reserve_key = ''r'', reserve_id = ''7'', underlying_token_address = ''0xb'',
             e_token_address = ''0xe'', total_liquidity = ''5'', total_borrows = ''3'',
             borrowing_rate = ''0''\<rparr>]
           \<lparr>vault_key = ''v'', vault_id = ''1'', block_number = ''0'', block_timestamp = ''0'',
            pair = ''0xp'', token0 = ''0xb'', token1 = ''0xc'', stable = False, paused = False,
            frozen = False, borrowing_enabled = True, max_leverage = ''3'', total_lp = ''1'',
            debt_position_id0 = ''7'', debt_position_id1 = ''8''\<rparr>))) (Fin a) = Fin 20"
proof -
  let ?cfg = "\<lparr>rate_scale = 1, periods_per_year = 2\<rparr> :: lend_config"
  let ?env = "\<lparr>unwrap_lp = \<lambda>_ _ _ _. Some (2, 3), farm_apy = \<lambda>_. 10\<rparr> :: vault_env"
  let ?prices = "[''optimism:0xb'' \<mapsto> \<lparr>token_symbol = ''USDC'', price = 1, decimals = 0\<rparr>]"
  let ?r = "\<lparr>reserve_key = ''r'', reserve_id = ''7'', underlying_token_address = ''0xb'',
             e_token_address = ''0xe'', total_liquidity = ''5'', total_borrows = ''3'',
             borrowing_rate = ''0''\<rparr>"
  let ?v = "\<lparr>vault_key = ''v'', vault_id = ''1'', block_number = ''0'', block_timestamp = ''0'',
            pair = ''0xp'', token0 = ''0xb'', token1 = ''0xc'', stable = False, paused = False,
            frozen = False, borrowing_enabled = True, max_leverage = ''3'', total_lp = ''1'',
            debt_position_id0 = ''7'', debt_position_id1 = ''8''\<rparr>"
  have lb: "to_lower ''0xb'' = ''0xb''" and lc: "to_lower ''0xc'' = ''0xc''" by code_simp+
  have p3: "parse_bignumber ''3'' = Fin 3" and p0: "parse_bignumber ''0'' = Fin 0"
    by (simp_all add: bn_eval)
  have ds: "debt_reserves ?v [?r] = [?r]" by (simp add: debt_reserves_def map_filter_def)
  have own: "base_tvl ?env ?prices ''optimism'' ?v = Fin 2"
    by (simp add: base_tvl_def get_token_info_def coin_key_def lb lc)
  have b: "borrowed_usd ?prices ''optimism'' ?r = Fin 3"
    by (simp add: borrowed_usd_def get_token_info_def coin_key_def lb p3)
  have a: "get_lend_pool_apy ?cfg ?r = Fin 0"
    by (simp add: get_lend_pool_apy_def p0)
  show ?thesis
    using vault_record_capital_weighted_apy [of ?env ?prices "''optimism''" ?v 2 "[?r]" 0 10 ?cfg id]
    by (simp add: ds own b a) (elim exE conjE, simp)
qed

end
