(* ===== verification/Pool_Aggregator.thy ===== *)
theory Pool_Aggregator
  imports Vault_Metrics
begin

text \<open>
  The Pool Aggregator, \<^verbatim>\<open>getPoolsData\<close> (src/src/adaptors/extra-finance/index.js lines
  19-127), and the final gate \<^verbatim>\<open>utils.keepFinite\<close> (not among the sources: modelled
  from the spec, 4.4: a record is kept when its \<^verbatim>\<open>tvlUsd\<close> and \<^verbatim>\<open>apyBase\<close> are finite).

  The collaborators are fields of \<open>collaborators\<close>: the subgraph request
  (\<^verbatim>\<open>request(url, graphQuery)\<close>) and the price request (\<^verbatim>\<open>superagent.get(url)\<close>, its
  \<^verbatim>\<open>body.coins\<close>), each \<open>None\<close> when the promise rejects; \<^verbatim>\<open>utils.formatChain\<close>; the
  lending configuration and the vault engine's helpers. A rejected request makes
  \<^verbatim>\<open>getPoolsData\<close> reject: the model returns \<open>Inl\<close> of the failing stage and no
  partial result. \<^verbatim>\<open>subgraphUrls[chain]\<close> is defined for the one chain the code uses;
  its absence (\<^verbatim>\<open>request(undefined, ...)\<close>) is the error \<open>No_subgraph_url\<close>.
\<close>

datatype fetch_error = No_subgraph_url | Subgraph_failed | Price_service_failed

record collaborators =
  subgraph_request :: "string \<Rightarrow> query_result option"
  price_request :: "string \<Rightarrow> price_map option"
  format_chain :: "chain_name \<Rightarrow> string"
  lend_cfg :: lend_config
  vault_helpers :: vault_env

definition keep_finite :: "pool_record \<Rightarrow> bool" where
  "keep_finite p \<longleftrightarrow> js_is_finite (apy_base p) \<and> js_is_finite (tvl_usd p)"

definition pools_chain :: chain_name where
  "pools_chain = ''optimism''"

section \<open>The pipeline\<close>

text \<open>Lines 91-127, once the query result and the prices are there.\<close>

definition assemble_pools ::
  "collaborators \<Rightarrow> chain_name \<Rightarrow> query_result \<Rightarrow> price_map \<Rightarrow> pool_record list" where
  "assemble_pools c ch q prices =
     (let lend = lending_records (format_chain c) (lend_cfg c) prices ch (filtered_lending_pools q);
          farm = get_all_velo_pool_info (lend_cfg c) (vault_helpers c)
                   (filter (\<lambda>item. \<not> paused item) (filtered_farming_pools q)) ch prices
                   (lending_reserve_pools q)
      in filter keep_finite (lend @ vault_records (format_chain c) ch farm))"

definition get_pools_data :: "collaborators \<Rightarrow> fetch_error + pool_record list" where
  "get_pools_data c =
     (let ch = pools_chain in
      case subgraph_urls ch of
        None \<Rightarrow> Inl No_subgraph_url
      | Some url \<Rightarrow>
          (case subgraph_request c url of
             None \<Rightarrow> Inl Subgraph_failed
           | Some q \<Rightarrow>
               (let cs = coins ch (get_token_addresses (filtered_lending_pools q) (vaults q)) in
                case price_request c (price_url cs) of
                  None \<Rightarrow> Inl Price_service_failed
                | Some prices \<Rightarrow> Inr (assemble_pools c ch q prices))))"

section \<open>An example configuration\<close>

text \<open>One reserve and one vault borrowing from it, one priced token; the witnesses below
  evaluate the pipeline on it.\<close>

definition example_reserve :: lending_reserve_pool where
  "example_reserve = \<lparr>reserve_key = ''r1'', reserve_id = ''7'', underlying_token_address = ''0xb'',
     e_token_address = ''0xe'', total_liquidity = ''1000'', total_borrows = ''3'', borrowing_rate = ''0''\<rparr>"

definition example_vault :: vault where
  "example_vault = \<lparr>vault_key = ''v1'', vault_id = ''1'', block_number = ''1'', block_timestamp = ''1'',
     pair = ''0xp'', token0 = ''0xb'', token1 = ''0xc'', stable = False, paused = False, frozen = False,
     borrowing_enabled = True, max_leverage = ''3'', total_lp = ''1'',
     debt_position_id0 = ''7'', debt_position_id1 = ''8''\<rparr>"

definition example_collaborators :: collaborators where
  "example_collaborators =
     \<lparr>subgraph_request = \<lambda>_. Some \<lparr>vaults = [example_vault], lending_reserve_pools = [example_reserve]\<rparr>,
      price_request = \<lambda>_. Some [''optimism:0xb'' \<mapsto> \<lparr>token_symbol = ''USDC'', price = 1, decimals = 0\<rparr>],
      format_chain = \<lambda>_. ''Optimism'',
      lend_cfg = \<lparr>rate_scale = 1, periods_per_year = 2\<rparr>,
      vault_helpers = \<lparr>unwrap_lp = \<lambda>_ _ _ _. Some (2, 3), farm_apy = \<lambda>_. 10\<rparr>\<rparr>"

abbreviation extra_subgraph_url :: string where
  "extra_subgraph_url \<equiv> ''https://api.thegraph.com/subgraphs/name/extrafi/extrasubgraph''"

section \<open>Lemmas\<close>

lemma subgraph_urls_pools_chain:
  "subgraph_urls pools_chain = Some ''https://api.thegraph.com/subgraphs/name/extrafi/extrasubgraph''"
  by (simp add: subgraph_urls_def pools_chain_def)

lemma get_pools_data_InrE:
  assumes "get_pools_data c = Inr ps"
  obtains q prices where "subgraph_request c extra_subgraph_url = Some q"
    and "price_request c (price_url (coins pools_chain
           (get_token_addresses (filtered_lending_pools q) (vaults q)))) = Some prices"
    and "ps = assemble_pools c pools_chain q prices"
  using assms by (auto simp: get_pools_data_def subgraph_urls_pools_chain Let_def
      split: option.splits)

lemma set_assemble_pools:
  "set (assemble_pools c ch q prices) =
     {p \<in> lend_pool_record (format_chain c) (lend_cfg c) prices ch ` set (filtered_lending_pools q)
        \<union> vault_pool_record (format_chain c) ch ` vault_metrics (lend_cfg c) (vault_helpers c) prices ch
            (lending_reserve_pools q) ` {v \<in> set (filtered_farming_pools q). \<not> paused v}. keep_finite p}"
  by (auto simp: assemble_pools_def lending_records_def vault_records_def get_all_velo_pool_info_def)

lemma get_pools_data_record_cases:
  assumes "get_pools_data c = Inr ps" and "subgraph_request c extra_subgraph_url = Some q"
    and "p \<in> set ps"
  obtains prices r where "r \<in> set (filtered_lending_pools q)"
      and "p = lend_pool_record (format_chain c) (lend_cfg c) prices pools_chain r"
  | prices v where "v \<in> set (filtered_farming_pools q)" and "\<not> paused v"
      and "p = vault_pool_record (format_chain c) pools_chain
                 (vault_metrics (lend_cfg c) (vault_helpers c) prices pools_chain (lending_reserve_pools q) v)"
  using assms by (auto elim!: get_pools_data_InrE simp: set_assemble_pools)

lemma example_to_lower: "to_lower ''0xb'' = ''0xb''" "to_lower ''0xc'' = ''0xc''"
   "to_lower ''0xe-optimism'' = ''0xe-optimism''" "to_lower ''0xp-optimism'' = ''0xp-optimism''"
  by code_simp+

lemma example_parse: "parse_bignumber ''1000'' = Fin 1000" "parse_bignumber ''3'' = Fin 3"
  "parse_bignumber ''0'' = Fin 0" "parse_bignumber ''1'' = Fin 1"
  by (simp_all add: bn_eval)

lemma example_subgraph_request:
  "subgraph_request example_collaborators u = Some \<lparr>vaults = [example_vault], lending_reserve_pools = [example_reserve]\<rparr>"
  by (simp add: example_collaborators_def)

lemma get_pools_data_example:
  "get_pools_data example_collaborators = Inr
     [\<lparr>pool = ''0xe-optimism'', pool_chain = ''Optimism'', pool_project = ''extra-finance'',
       symbol = Some ''USDC'', underlying_tokens = [''0xb''], pool_meta = ''Lending Pool'',
       tvl_usd = Fin 1000, apy_base = Fin 0\<rparr>,
      \<lparr>pool = ''0xp-optimism'', pool_chain = ''Optimism'', pool_project = ''extra-finance'',
       symbol = Some ''USDC-undefined'', underlying_tokens = [''0xb'', ''0xc''],
       pool_meta = ''Leveraged Yield Farming'', tvl_usd = Fin 5, apy_base = Fin 4\<rparr>]"
proof -
  have d: "debt_reserves example_vault [example_reserve] = [example_reserve]"
    by (simp add: debt_reserves_def map_filter_def example_vault_def example_reserve_def)
  have g: "get_pools_data example_collaborators =
      Inr (assemble_pools example_collaborators pools_chain
             \<lparr>vaults = [example_vault], lending_reserve_pools = [example_reserve]\<rparr>
             [''optimism:0xb'' \<mapsto> \<lparr>token_symbol = ''USDC'', price = 1, decimals = 0\<rparr>])"
    by (simp add: get_pools_data_def subgraph_urls_pools_chain example_collaborators_def)
  show ?thesis
    unfolding g
    by (simp add: example_collaborators_def
        assemble_pools_def lending_records_def vault_records_def get_all_velo_pool_info_def
        filtered_lending_pools_def filtered_farming_pools_def bn_positive_def example_parse
        d [unfolded example_vault_def example_reserve_def]
        example_vault_def example_reserve_def 
        pool_simps vault_metrics_def Let_def
        get_token_info_def coin_key_def example_to_lower get_lend_pool_tvl_def get_lend_pool_apy_def
        compound_apy_def base_tvl_def borrowed_usd_def blended_apy_def keep_finite_def project_def
        pools_chain_def js_sum_def)
qed

lemma example_vault_record:
  "vault_pool_record (format_chain example_collaborators) pools_chain
     (vault_metrics (lend_cfg example_collaborators) (vault_helpers example_collaborators)
        [''optimism:0xb'' \<mapsto> \<lparr>token_symbol = ''USDC'', price = 1, decimals = 0\<rparr>] pools_chain
        [example_reserve] example_vault) =
   \<lparr>pool = ''0xp-optimism'', pool_chain = ''Optimism'', pool_project = ''extra-finance'',
    symbol = Some ''USDC-undefined'', underlying_tokens = [''0xb'', ''0xc''],
    pool_meta = ''Leveraged Yield Farming'', tvl_usd = Fin 5, apy_base = Fin 4\<rparr>"
proof -
  have d: "debt_reserves example_vault [example_reserve] = [example_reserve]"
    by (simp add: debt_reserves_def map_filter_def example_vault_def example_reserve_def)
  show ?thesis
    by (simp add: example_collaborators_def d [unfolded example_vault_def example_reserve_def]
        example_vault_def example_reserve_def pool_simps vault_metrics_def Let_def
        get_token_info_def coin_key_def example_to_lower example_parse get_lend_pool_apy_def
        compound_apy_def base_tvl_def borrowed_usd_def blended_apy_def project_def
        pools_chain_def js_sum_def)
qed

section \<open>Properties of the pipeline\<close>

text \<open>
  C1. Every record getPoolsData returns has a finite tvlUsd and a finite apyBase.
\<close>

theorem get_pools_data_finite:
  assumes "get_pools_data c = Inr ps" and "p \<in> set ps"
  shows "js_is_finite (tvl_usd p) \<and> js_is_finite (apy_base p)"
  using assms by (auto elim!: get_pools_data_InrE simp: set_assemble_pools keep_finite_def)

theorem get_pools_data_finite_witness:
  "js_is_finite (tvl_usd \<lparr>pool = ''0xp-optimism'', pool_chain = ''Optimism'', pool_project = ''extra-finance'',
       symbol = Some ''USDC-undefined'', underlying_tokens = [''0xb'', ''0xc''],
       pool_meta = ''Leveraged Yield Farming'', tvl_usd = Fin 5, apy_base = Fin 4\<rparr>)
   \<and> js_is_finite (apy_base \<lparr>pool = ''0xp-optimism'', pool_chain = ''Optimism'', pool_project = ''extra-finance'',
       symbol = Some ''USDC-undefined'', underlying_tokens = [''0xb'', ''0xc''],
       pool_meta = ''Leveraged Yield Farming'', tvl_usd = Fin 5, apy_base = Fin 4\<rparr>)"
  using get_pools_data_finite [OF get_pools_data_example, of "\<lparr>pool = ''0xp-optimism'', pool_chain = ''Optimism'', pool_project = ''extra-finance'',
       symbol = Some ''USDC-undefined'', underlying_tokens = [''0xb'', ''0xc''],
       pool_meta = ''Leveraged Yield Farming'', tvl_usd = Fin 5, apy_base = Fin 4\<rparr>"] by simp

text \<open>
  C2. Every vault record in the output comes from a vault of the query that is not paused
  and has a positive totalLp, and carries that vault's case-normalised pool key.
\<close>

theorem get_pools_data_vault_provenance:
  assumes "get_pools_data c = Inr ps" and "subgraph_request c extra_subgraph_url = Some q"
    and "p \<in> set ps" and "pool_meta p = ''Leveraged Yield Farming''"
  shows "\<exists>v\<in>set (vaults q). \<not> paused v \<and> bn_positive (total_lp v)
           \<and> pool p = to_lower (pair v @ ''-'' @ pools_chain)"
  using assms by (auto elim!: get_pools_data_InrE simp: set_assemble_pools filtered_farming_pools_def) blast

theorem get_pools_data_vault_provenance_witness:
  "\<exists>v\<in>set [example_vault]. \<not> paused v \<and> bn_positive (total_lp v)
     \<and> pool \<lparr>pool = ''0xp-optimism'', pool_chain = ''Optimism'', pool_project = ''extra-finance'',
       symbol = Some ''USDC-undefined'', underlying_tokens = [''0xb'', ''0xc''],
       pool_meta = ''Leveraged Yield Farming'', tvl_usd = Fin 5, apy_base = Fin 4\<rparr> = to_lower (pair v @ ''-'' @ pools_chain)"
  using get_pools_data_vault_provenance [OF get_pools_data_example example_subgraph_request,
      of "\<lparr>pool = ''0xp-optimism'', pool_chain = ''Optimism'', pool_project = ''extra-finance'',
       symbol = Some ''USDC-undefined'', underlying_tokens = [''0xb'', ''0xc''],
       pool_meta = ''Leveraged Yield Farming'', tvl_usd = Fin 5, apy_base = Fin 4\<rparr>"]
  by simp

text \<open>
  C3. Every lending record in the output is the record of a reserve of the query whose
  totalLiquidity is positive: a reserve with zero (or unreadable) liquidity emits nothing.
\<close>

theorem get_pools_data_lending_provenance:
  assumes "get_pools_data c = Inr ps" and "subgraph_request c extra_subgraph_url = Some q"
    and "p \<in> set ps" and "pool_meta p = ''Lending Pool''"
  shows "\<exists>r\<in>set (lending_reserve_pools q). bn_positive (total_liquidity r)
           \<and> (\<exists>prices. p = lend_pool_record (format_chain c) (lend_cfg c) prices pools_chain r)"
  using assms by (auto elim!: get_pools_data_InrE simp: set_assemble_pools filtered_lending_pools_def) blast

theorem get_pools_data_lending_provenance_witness:
  "\<exists>r\<in>set (lending_reserve_pools \<lparr>vaults = [example_vault], lending_reserve_pools = [example_reserve]\<rparr>). bn_positive (total_liquidity r)
     \<and> (\<exists>prices. \<lparr>pool = ''0xe-optimism'', pool_chain = ''Optimism'', pool_project = ''extra-finance'',
       symbol = Some ''USDC'', underlying_tokens = [''0xb''], pool_meta = ''Lending Pool'',
       tvl_usd = Fin 1000, apy_base = Fin 0\<rparr> =
       lend_pool_record (format_chain example_collaborators) (lend_cfg example_collaborators)
         prices pools_chain r)"
  by (rule get_pools_data_lending_provenance [OF get_pools_data_example example_subgraph_request])
     simp_all

text \<open>
  C4. The output is the lending records followed by the vault records, each part a
  subsequence of its source list in source order.
\<close>

theorem get_pools_data_order:
  assumes "get_pools_data c = Inr ps" and "subgraph_request c extra_subgraph_url = Some q"
  shows "\<exists>prices xs ys. ps = xs @ ys
           \<and> subseq xs (map (lend_pool_record (format_chain c) (lend_cfg c) prices pools_chain)
                          (lending_reserve_pools q))
           \<and> subseq ys (map (vault_pool_record (format_chain c) pools_chain \<circ>
                             vault_metrics (lend_cfg c) (vault_helpers c) prices pools_chain
                               (lending_reserve_pools q)) (vaults q))"
proof -
  from assms obtain prices where ps: "ps = assemble_pools c pools_chain q prices"
    by (auto elim!: get_pools_data_InrE)
  let ?L = "lend_pool_record (format_chain c) (lend_cfg c) prices pools_chain"
  let ?V = "vault_pool_record (format_chain c) pools_chain \<circ>
              vault_metrics (lend_cfg c) (vault_helpers c) prices pools_chain (lending_reserve_pools q)"
  have "subseq (filter keep_finite (map ?L (filtered_lending_pools q))) (map ?L (lending_reserve_pools q))"
    unfolding filtered_lending_pools_def
    by (rule subseq_order.trans [OF subseq_filter_left]) (rule subseq_map, rule subseq_filter_left)
  moreover have "subseq (filter keep_finite (map ?V (filter (\<lambda>v. \<not> paused v) (filtered_farming_pools q))))
                   (map ?V (vaults q))"
    unfolding filtered_farming_pools_def
    by (rule subseq_order.trans [OF subseq_filter_left], rule subseq_map,
        rule subseq_order.trans [OF subseq_filter_left subseq_filter_left])
  ultimately show ?thesis
    using ps by (auto simp: assemble_pools_def lending_records_def vault_records_def
        get_all_velo_pool_info_def)
qed

theorem get_pools_data_order_witness:
  "\<exists>prices xs ys. projr (get_pools_data example_collaborators) = xs @ ys
     \<and> subseq xs (map (lend_pool_record (format_chain example_collaborators)
                      (lend_cfg example_collaborators) prices pools_chain) [example_reserve])
     \<and> subseq ys (map (vault_pool_record (format_chain example_collaborators) pools_chain \<circ>
                      vault_metrics (lend_cfg example_collaborators) (vault_helpers example_collaborators)
                        prices pools_chain [example_reserve]) [example_vault])"
  using get_pools_data_order [OF get_pools_data_example example_subgraph_request]
  by (simp add: get_pools_data_example)

text \<open>
  C6. A failed subgraph request makes getPoolsData fail as a whole, with no partial result.
\<close>

theorem get_pools_data_subgraph_failure:
  "subgraph_request c extra_subgraph_url = None \<Longrightarrow> get_pools_data c = Inl Subgraph_failed"
  by (simp add: get_pools_data_def subgraph_urls_pools_chain)

theorem get_pools_data_subgraph_failure_witness:
  "get_pools_data (example_collaborators\<lparr>subgraph_request := \<lambda>_. None\<rparr>) = Inl Subgraph_failed"
  by (rule get_pools_data_subgraph_failure) simp

text \<open>
  C7. A failed price request makes getPoolsData fail as a whole, with no partial result.
\<close>

theorem get_pools_data_price_failure:
  assumes "subgraph_request c extra_subgraph_url = Some q"
    and "price_request c (price_url (coins pools_chain
           (get_token_addresses (filtered_lending_pools q) (vaults q)))) = None"
  shows "get_pools_data c = Inl Price_service_failed"
  using assms by (simp add: get_pools_data_def subgraph_urls_pools_chain)

theorem get_pools_data_price_failure_witness:
  "get_pools_data (example_collaborators\<lparr>price_request := \<lambda>_. None\<rparr>) = Inl Price_service_failed"
  by (rule get_pools_data_price_failure [of _ "\<lparr>vaults = [example_vault], lending_reserve_pools = [example_reserve]\<rparr>"]) (simp_all add: example_collaborators_def)

text \<open>
  C5. The finiteness gate drops nothing else: the record of an eligible reserve whose
  metrics are finite is in the output.
\<close>

theorem get_pools_data_keeps_finite_lending:
  assumes "subgraph_request c extra_subgraph_url = Some q"
    and "price_request c (price_url (coins pools_chain
           (get_token_addresses (filtered_lending_pools q) (vaults q)))) = Some prices"
    and "r \<in> set (lending_reserve_pools q)" and "bn_positive (total_liquidity r)"
    and "js_is_finite (tvl_usd (lend_pool_record (format_chain c) (lend_cfg c) prices pools_chain r))"
    and "js_is_finite (apy_base (lend_pool_record (format_chain c) (lend_cfg c) prices pools_chain r))"
  shows "\<exists>ps. get_pools_data c = Inr ps
           \<and> lend_pool_record (format_chain c) (lend_cfg c) prices pools_chain r \<in> set ps"
  using assms by (auto simp: get_pools_data_def subgraph_urls_pools_chain set_assemble_pools
      filtered_lending_pools_def keep_finite_def)

theorem get_pools_data_keeps_finite_lending_witness:
  "\<exists>ps. get_pools_data example_collaborators = Inr ps
     \<and> lend_pool_record (\<lambda>_. ''Optimism'') \<lparr>rate_scale = 1, periods_per_year = 2\<rparr> [''optimism:0xb'' \<mapsto> \<lparr>token_symbol = ''USDC'', price = 1, decimals = 0\<rparr>] pools_chain
           example_reserve \<in> set ps"
proof -
  have "tvl_usd (lend_pool_record (\<lambda>_. ''Optimism'') \<lparr>rate_scale = 1, periods_per_year = 2\<rparr> [''optimism:0xb'' \<mapsto> \<lparr>token_symbol = ''USDC'', price = 1, decimals = 0\<rparr>]
          pools_chain example_reserve) = Fin 1000"
    by (simp add: example_reserve_def get_lend_pool_tvl_def example_parse get_token_info_def
        coin_key_def pools_chain_def example_to_lower)
  moreover have "js_is_finite (apy_base (lend_pool_record (\<lambda>_. ''Optimism'')
          \<lparr>rate_scale = 1, periods_per_year = 2\<rparr> [''optimism:0xb'' \<mapsto> \<lparr>token_symbol = ''USDC'', price = 1, decimals = 0\<rparr>] pools_chain example_reserve))"
    by simp
  moreover have "bn_positive (total_liquidity example_reserve)"
    by (simp add: bn_positive_def example_reserve_def example_parse)
  ultimately show ?thesis
    using get_pools_data_keeps_finite_lending [of example_collaborators "\<lparr>vaults = [example_vault], lending_reserve_pools = [example_reserve]\<rparr>" "[''optimism:0xb'' \<mapsto> \<lparr>token_symbol = ''USDC'', price = 1, decimals = 0\<rparr>]" example_reserve]
    by (simp add: example_collaborators_def)
qed

text \<open>
  C11. The paused filter and the finiteness gate drop no other vault: the record of a vault of
  the query with positive totalLp that is not paused, computed against all reserves of the
  query (line 110), is in the output when its metrics are finite.
\<close>

theorem get_pools_data_keeps_finite_vault:
  assumes "subgraph_request c extra_subgraph_url = Some q"
    and "price_request c (price_url (coins pools_chain
           (get_token_addresses (filtered_lending_pools q) (vaults q)))) = Some prices"
    and "v \<in> set (vaults q)" and "bn_positive (total_lp v)" and "\<not> paused v"
    and "js_is_finite (tvl_usd (vault_pool_record (format_chain c) pools_chain
           (vault_metrics (lend_cfg c) (vault_helpers c) prices pools_chain (lending_reserve_pools q) v)))"
    and "js_is_finite (apy_base (vault_pool_record (format_chain c) pools_chain
           (vault_metrics (lend_cfg c) (vault_helpers c) prices pools_chain (lending_reserve_pools q) v)))"
  shows "\<exists>ps. get_pools_data c = Inr ps
           \<and> vault_pool_record (format_chain c) pools_chain
               (vault_metrics (lend_cfg c) (vault_helpers c) prices pools_chain (lending_reserve_pools q) v)
             \<in> set ps"
  using assms by (auto simp: get_pools_data_def subgraph_urls_pools_chain set_assemble_pools
      filtered_farming_pools_def keep_finite_def)

theorem get_pools_data_keeps_finite_vault_witness:
  "\<exists>ps. get_pools_data example_collaborators = Inr ps
     \<and> \<lparr>pool = ''0xp-optimism'', pool_chain = ''Optimism'', pool_project = ''extra-finance'',
        symbol = Some ''USDC-undefined'', underlying_tokens = [''0xb'', ''0xc''],
        pool_meta = ''Leveraged Yield Farming'', tvl_usd = Fin 5, apy_base = Fin 4\<rparr> \<in> set ps"
proof -
  have "bn_positive (total_lp example_vault)"
    by (simp add: bn_positive_def example_vault_def example_parse)
  moreover have "\<not> paused example_vault" by (simp add: example_vault_def)
  ultimately show ?thesis
    using get_pools_data_keeps_finite_vault [of example_collaborators
        "\<lparr>vaults = [example_vault], lending_reserve_pools = [example_reserve]\<rparr>"
        "[''optimism:0xb'' \<mapsto> \<lparr>token_symbol = ''USDC'', price = 1, decimals = 0\<rparr>]" example_vault]
    by (simp add: example_vault_record) (simp add: example_collaborators_def)
qed

text \<open>
  C8. Every token an output record names as underlying was in the price request: the
  address list covers both tokens of every vault and the token of every eligible reserve.
\<close>

theorem get_pools_data_tokens_requested:
  assumes "get_pools_data c = Inr ps" and "subgraph_request c extra_subgraph_url = Some q"
    and "p \<in> set ps"
  shows "set (underlying_tokens p) \<subseteq> set (get_token_addresses (filtered_lending_pools q) (vaults q))"
  using assms
  by (cases rule: get_pools_data_record_cases)
     (auto simp: get_token_addresses_def set_foldl_add_vault_tokens filtered_farming_pools_def)

theorem get_pools_data_tokens_requested_witness:
  "set [''0xb'', ''0xc''] \<subseteq> set (get_token_addresses (filtered_lending_pools
      \<lparr>vaults = [example_vault], lending_reserve_pools = [example_reserve]\<rparr>) [example_vault])"
  using get_pools_data_tokens_requested [OF get_pools_data_example example_subgraph_request,
      of "\<lparr>pool = ''0xp-optimism'', pool_chain = ''Optimism'', pool_project = ''extra-finance'',
       symbol = Some ''USDC-undefined'', underlying_tokens = [''0xb'', ''0xc''],
       pool_meta = ''Leveraged Yield Farming'', tvl_usd = Fin 5, apy_base = Fin 4\<rparr>"]
  by simp

text \<open>
  C9. Output schema: every record's pool key has no upper-case letter, its project is
  extra-finance and its chain is the formatted chain name.
\<close>

theorem get_pools_data_schema:
  assumes "get_pools_data c = Inr ps"
  shows "list_all (\<lambda>p. list_all (\<lambda>ch. \<not> is_upper_char ch) (pool p)
                      \<and> pool_project p = ''extra-finance'' \<and> pool_chain p = format_chain c pools_chain) ps"
proof -
  from assms obtain q where "subgraph_request c extra_subgraph_url = Some q"
    by (auto elim!: get_pools_data_InrE)
  with assms show ?thesis
    unfolding list_all_iff
    by (auto elim!: get_pools_data_record_cases simp del: to_lower_append
        simp add: list_all_iff to_lower_no_upper project_def pool_simps Let_def)
qed

theorem get_pools_data_schema_witness:
  "list_all (\<lambda>p. list_all (\<lambda>ch. \<not> is_upper_char ch) (pool p)
                      \<and> pool_project p = ''extra-finance'' \<and> pool_chain p = ''Optimism'')
     (projr (get_pools_data example_collaborators))"
  using get_pools_data_schema [OF get_pools_data_example]
  by (simp only: get_pools_data_example sum.sel) (simp add: example_collaborators_def)

text \<open>
  C10. At most one record per eligible reserve and per eligible non-paused vault.
\<close>

theorem get_pools_data_length:
  assumes "get_pools_data c = Inr ps" and "subgraph_request c extra_subgraph_url = Some q"
  shows "length ps \<le> length (filtered_lending_pools q)
                       + length (filter (\<lambda>v. \<not> paused v) (filtered_farming_pools q))"
proof -
  from assms obtain prices where "ps = assemble_pools c pools_chain q prices"
    by (auto elim!: get_pools_data_InrE)
  then have "ps = filter keep_finite (lending_records (format_chain c) (lend_cfg c) prices pools_chain
                     (filtered_lending_pools q))
              @ filter keep_finite (vault_records (format_chain c) pools_chain
                  (get_all_velo_pool_info (lend_cfg c) (vault_helpers c)
                     (filter (\<lambda>v. \<not> paused v) (filtered_farming_pools q)) pools_chain prices
                     (lending_reserve_pools q)))"
    by (simp add: assemble_pools_def Let_def)
  then show ?thesis
    by (simp only: length_append)
       (intro add_mono order_trans [OF length_filter_le],
        simp_all add: lending_records_def vault_records_def get_all_velo_pool_info_def)
qed

theorem get_pools_data_length_witness:
  "length (projr (get_pools_data example_collaborators)) \<le>
     length (filtered_lending_pools \<lparr>vaults = [example_vault], lending_reserve_pools = [example_reserve]\<rparr>)
     + length (filter (\<lambda>v. \<not> paused v) (filtered_farming_pools
                 \<lparr>vaults = [example_vault], lending_reserve_pools = [example_reserve]\<rparr>))"
  using get_pools_data_length [OF get_pools_data_example example_subgraph_request]
  by (simp add: get_pools_data_example)

end
