(* ===== verification/Spec2Isabelle.thy ===== *)
theory Spec2Isabelle
  imports Pool_Aggregator
begin

text \<open>
  \<^bold>\<open>A verification model of the Extra Finance yield adaptor.\<close>

  The program is one module, src/src/adaptors/extra-finance/index.js, whose function
  \<^verbatim>\<open>getPoolsData\<close> builds the list of pool records the yield server publishes for the
  protocol on Optimism. Its parts and how they interact:
  \<^item> the raw fetch: one GraphQL request returns the vaults and the lending reserves
    (lines 24-52); two filters keep the reserves with positive \<^verbatim>\<open>totalLiquidity\<close> and the
    vaults with positive \<^verbatim>\<open>totalLp\<close>, read with \<^verbatim>\<open>bignumber.js\<close> (lines 54-59);
  \<^item> the Price Resolver integration: \<^verbatim>\<open>getTokenAddresses\<close> lists the tokens to price
    (lines 61-76), one request to the price service prices them all (lines 78-84),
    \<^verbatim>\<open>getTokenInfo\<close> looks a token up under its lower-cased key (lines 86-89);
  \<^item> the Lending Metrics Engine (\<^verbatim>\<open>getLendPoolTvl\<close>, \<^verbatim>\<open>getLendPoolApy\<close>) and the lending
    records (lines 91-104);
  \<^item> the Leverage Vault Metrics Engine (\<^verbatim>\<open>getAllVeloPoolInfo\<close>, called on the non-paused
    eligible vaults with all reserves, lines 106-111) and the vault records (lines 113-124);
  \<^item> the final gate \<^verbatim>\<open>utils.keepFinite\<close> (line 126).

  \<^bold>\<open>Theories.\<close>
  \<^item> \<open>Yield_Prelude\<close>: JavaScript numbers as \<open>jsnum\<close> (finite rationals, \<open>NaN\<close>,
    \<open>\<plusminus>Infinity\<close>, with ECMAScript's rules for \<open>+\<close>, \<open>*\<close>, \<open>/\<close>), \<^verbatim>\<open>toLowerCase\<close>,
    \<^verbatim>\<open>join\<close>, template-literal printing of \<^verbatim>\<open>undefined\<close>; the shared lemmas on
    finiteness, sums and weighted averages.
  \<^item> \<open>Big_Number\<close>: the \<^verbatim>\<open>new BigNumber(string)\<close> reader and \<open>bn_positive\<close>
    (\<^verbatim>\<open>.gt(0)\<close>, lines 55 and 58).
  \<^item> \<open>Subgraph_Data\<close>: the records \<open>vault\<close>, \<open>lending_reserve_pool\<close>,
    \<open>query_result\<close> with every field of the query; \<open>filtered_lending_pools\<close>,
    \<open>filtered_farming_pools\<close>.
  \<^item> \<open>Price_Resolver\<close>: \<open>get_token_addresses\<close> (the \<^verbatim>\<open>forEach\<close> as a \<open>foldl\<close> of
    \<open>add_vault_tokens\<close>), \<open>coins\<close>, \<open>price_url\<close>, \<open>coin_key\<close>, \<open>get_token_info\<close>;
    the service's contract \<open>price_service_response\<close>.
  \<^item> \<open>Lending_Metrics\<close>: \<open>get_lend_pool_tvl\<close>, \<open>get_lend_pool_apy\<close>, the output record
    \<open>pool_record\<close>, \<open>lend_pool_record\<close> and \<open>lending_records\<close>.
  \<^item> \<open>Vault_Metrics\<close>: \<open>vault_metrics\<close> and \<open>get_all_velo_pool_info\<close>,
    \<open>vault_pool_record\<close> and \<open>vault_records\<close>.
  \<^item> \<open>Pool_Aggregator\<close>: \<open>get_pools_data\<close> with its collaborators, \<open>assemble_pools\<close>,
    \<open>keep_finite\<close>, and an example configuration on which the pipeline is evaluated.
  \<^item> this theory: what the spec promises of the records' symbols under the price service's
    contract (\<open>expected_symbol\<close>), and the property that spans the resolver and the pipeline.

  \<^bold>\<open>State and effects.\<close> The adaptor keeps no state between calls; within a call every
  mutation is an array being built (\<^verbatim>\<open>result.push\<close>, \<^verbatim>\<open>pools.push\<close>), modelled as
  folds and maps in source order. The awaited requests are the fields of
  \<open>collaborators\<close>, each returning \<open>None\<close> when its promise rejects; \<open>get_pools_data\<close>
  returns \<open>Inl\<close> of the failing stage (\<open>fetch_error\<close>) or \<open>Inr\<close> of the records. The
  vault loop's callback is \<^verbatim>\<open>async\<close> without \<^verbatim>\<open>await\<close>, so its pushes are synchronous
  and in order: a \<open>map\<close>. Every recursion is structural (the folds and maps over the
  lists, \<open>decimal_of_nat\<close> by division), so no fuel or step bound is needed.

  \<^bold>\<open>What the lemmas show.\<close> The pipeline (\<open>Pool_Aggregator\<close>) returns only finite
  metrics; a vault record comes from a non-paused vault with positive LP supply and a
  lending record from a reserve with positive liquidity; lending records precede vault
  records, each in source order; the finiteness gate and the paused filter drop nothing
  else, for reserves and for vaults; an upstream failure fails the whole call; every
  underlying token of a record was in the price request; every record has a lower-case pool
  key, the project name and the formatted chain; there is at most one record per eligible
  reserve and vault. The engines: a lending record reads the price map only at its
  underlying token's key; the lending APY is monotone in the rate; the vault APY is the
  capital-weighted average (TVL times APY is the total yield of own and borrowed capital).
  The resolver: the address list is exactly the lending tokens followed by the vault tokens,
  duplicate-free exactly when the lending tokens are; request and lookup keys agree; the
  lookup ignores case. The reader: decimal BigInt strings read exactly, and the filter is
  strict (0 and negative strings fail). Across components (this theory): under the price
  service's contract every record carries the service's symbols for its tokens.

  \<^bold>\<open>Not modelled.\<close> The network transports (graphql-request, superagent) beyond their
  results; \<^verbatim>\<open>utils.formatChain\<close> (an arbitrary function here); the LP-unwrap helper and the
  farming rate (parameters of the vault engine); a rejection of the awaited
  \<^verbatim>\<open>getAllVeloPoolInfo\<close> (line 106), which the spec (4.3) rules out by isolating each
  vault's failure, so the engine is total here; a response without \<^verbatim>\<open>body.coins\<close> and
  null fields of the query (TypeErrors); the rounding of IEEE doubles and signed zero
  (numbers are exact rationals); BigNumber's base prefixes (read as \<open>NaN\<close> here, where the
  library reads base 16, 2 or 8) and exponent limits; Unicode case mapping. \<^verbatim>\<open>./compute\<close>
  and \<^verbatim>\<open>../utils\<close> are not in the sources: the engines and \<^verbatim>\<open>keepFinite\<close> follow the
  spec, with the compounding constants of the lending APY as an explicit configuration
  (\<open>lend_config\<close>) since the spec leaves them open.

  \<^bold>\<open>Plan for further work.\<close> A trace of the external calls with their arguments (the
  unwrap calls per vault); a failure path for the vault engine with the spec's per-vault
  isolation; the price service as a function of the URL it is sent.
\<close>

section \<open>The price service's contract and the record symbols\<close>

text \<open>
  What the spec promises of a record's symbol: the service's symbol for the record's token,
  and for a vault the two tokens' symbols joined by a dash, a missing one printed as
  \<^verbatim>\<open>undefined\<close>. A lending record has one underlying token, a vault record two.
  \<open>contract_collaborators\<close> is the example configuration of \<open>Pool_Aggregator\<close> with a
  price service that keeps the contract of \<open>price_service_response\<close>.
\<close>

definition quoted_symbol :: "price_map \<Rightarrow> address \<Rightarrow> string option" where
  "quoted_symbol quote t = map_option token_symbol (quote (pools_chain @ '':'' @ to_lower t))"

definition expected_symbol :: "price_map \<Rightarrow> pool_record \<Rightarrow> string option" where
  "expected_symbol quote p =
     (case underlying_tokens p of
        [t] \<Rightarrow> quoted_symbol quote t
      | [t0, t1] \<Rightarrow> Some (js_str (quoted_symbol quote t0) @ ''-'' @ js_str (quoted_symbol quote t1))
      | _ \<Rightarrow> None)"

definition example_quote :: price_map where
  "example_quote = [''optimism:0xb'' \<mapsto> \<lparr>token_symbol = ''USDC'', price = 1, decimals = 0\<rparr>]"

definition contract_collaborators :: collaborators where
  "contract_collaborators = example_collaborators
     \<lparr>price_request := \<lambda>_. Some (price_service_response example_quote pools_chain [''0xb'', ''0xc''])\<rparr>"

section \<open>Properties spanning the components\<close>

text \<open>
  C12. When the price service keeps its contract (answers keyed by chain and lower-cased
  address, for the addresses requested), every record getPoolsData returns carries the
  service's symbol for its tokens, whatever the case of the addresses in the subgraph: the
  request covers every token looked up, and request and lookup keys agree.
\<close>

theorem get_pools_data_symbols_under_price_contract:
  assumes "subgraph_request c extra_subgraph_url = Some q"
    and "price_request c (price_url (coins pools_chain
           (get_token_addresses (filtered_lending_pools q) (vaults q)))) =
         Some (price_service_response quote pools_chain
           (get_token_addresses (filtered_lending_pools q) (vaults q)))"
  shows "\<exists>ps. get_pools_data c = Inr ps \<and> list_all (\<lambda>p. symbol p = expected_symbol quote p) ps"
proof -
  let ?A = "get_token_addresses (filtered_lending_pools q) (vaults q)"
  let ?P = "price_service_response quote pools_chain ?A"
  have mem: "set (map underlying_token_address (filtered_lending_pools q)) \<subseteq> set ?A"
    "\<And>v. v \<in> set (vaults q) \<Longrightarrow> token0 v \<in> set ?A \<and> token1 v \<in> set ?A"
    by (auto simp: get_token_addresses_def set_foldl_add_vault_tokens)
  have "get_pools_data c = Inr (assemble_pools c pools_chain q ?P)"
    using assms by (simp add: get_pools_data_def subgraph_urls_pools_chain)
  moreover have "list_all (\<lambda>p. symbol p = expected_symbol quote p) (assemble_pools c pools_chain q ?P)"
    unfolding list_all_iff set_assemble_pools
    using mem by (auto simp: expected_symbol_def quoted_symbol_def get_token_info_price_service_response
        filtered_farming_pools_def)
  ultimately show ?thesis by blast
qed

theorem get_pools_data_symbols_under_price_contract_witness:
  "\<exists>ps. get_pools_data contract_collaborators = Inr ps
     \<and> list_all (\<lambda>p. symbol p = expected_symbol example_quote p) ps"
proof -
  have a: "get_token_addresses (filtered_lending_pools
             \<lparr>vaults = [example_vault], lending_reserve_pools = [example_reserve]\<rparr>) [example_vault]
           = [''0xb'', ''0xc'']"
    by (simp add: get_token_addresses_def filtered_lending_pools_def bn_positive_def example_parse
        example_reserve_def example_vault_def add_vault_tokens_def push_if_absent_def)
  show ?thesis
    using get_pools_data_symbols_under_price_contract [of contract_collaborators
        "\<lparr>vaults = [example_vault], lending_reserve_pools = [example_reserve]\<rparr>" example_quote]
    by (simp add: a) (simp add: contract_collaborators_def example_collaborators_def)
qed

end
